theory Spec2Isabelle
  imports Complex_Main "HOL-Library.Word"
begin

section \<open>Values of the language\<close>

text \<open>
  The client is written in JavaScript. A Number is an IEEE double: a finite double is a
  dyadic rational and is modelled by its exact value, so that the comparisons of the source
  are comparisons of rationals; the three values that are not finite are constructors of
  their own. A numeric literal of the source denotes the double nearest to it.
\<close>

datatype number = NaN | Num rat | PosInfinity | NegInfinity

text \<open>The relational operators \<^verbatim>\<open>>=\<close> and \<^verbatim>\<open><\<close> on Numbers: false whenever an operand is NaN.\<close>

fun js_ge :: "number \<Rightarrow> number \<Rightarrow> bool" where
  "js_ge NaN y = False"
| "js_ge x NaN = False"
| "js_ge PosInfinity y = True"
| "js_ge x NegInfinity = True"
| "js_ge (Num a) (Num b) = (b \<le> a)"
| "js_ge (Num a) PosInfinity = False"
| "js_ge NegInfinity y = False"

fun js_lt :: "number \<Rightarrow> number \<Rightarrow> bool" where
  "js_lt NaN y = False"
| "js_lt x NaN = False"
| "js_lt (Num a) (Num b) = (a < b)"
| "js_lt NegInfinity NegInfinity = False"
| "js_lt NegInfinity y = True"
| "js_lt x NegInfinity = False"
| "js_lt PosInfinity y = False"
| "js_lt (Num a) PosInfinity = True"

text \<open>
  The literals \<^verbatim>\<open>0.8\<close> and \<^verbatim>\<open>0.6\<close>: the doubles \<^verbatim>\<open>0x1.999999999999ap-1\<close> and
  \<^verbatim>\<open>0x1.3333333333333p-1\<close>, each a 53-bit significand over \<open>2 ^ 53\<close>.
\<close>

definition literal_0_8 :: number where
  "literal_0_8 = Num (7205759403792794 / 2 ^ 53)"

definition literal_0_6 :: number where
  "literal_0_6 = Num (5404319552844595 / 2 ^ 53)"

text \<open>
  A value is \<^verbatim>\<open>undefined\<close>, \<^verbatim>\<open>null\<close>, a boolean, a Number, a string, an array or an
  object; an object is the list of its own properties. Strings are sequences of code
  units; the model has the code units below 256.
\<close>

datatype jsval =
    JUndefined
  | JNull
  | JBool bool
  | JNum number
  | JStr string
  | JArr "jsval list"
  | JObj "(string \<times> jsval) list"

text \<open>Truthiness, as \<^verbatim>\<open>!\<close>, \<^verbatim>\<open>||\<close> and \<^verbatim>\<open>if\<close> read a value.\<close>

fun truthy :: "jsval \<Rightarrow> bool" where
  "truthy JUndefined = False"
| "truthy JNull = False"
| "truthy (JBool b) = b"
| "truthy (JNum NaN) = False"
| "truthy (JNum (Num q)) = (q \<noteq> 0)"
| "truthy (JNum PosInfinity) = True"
| "truthy (JNum NegInfinity) = True"
| "truthy (JStr s) = (s \<noteq> [])"
| "truthy (JArr vs) = True"
| "truthy (JObj kvs) = True"

text \<open>\<^verbatim>\<open>a || b\<close>\<close>

definition js_or :: "jsval \<Rightarrow> jsval \<Rightarrow> jsval" where
  "js_or a b = (if truthy a then a else b)"

text \<open>
  An exception is an \<^verbatim>\<open>Error\<close> object with its \<^verbatim>\<open>message\<close>: what \<^verbatim>\<open>fetch\<close>, \<^verbatim>\<open>response.json()\<close>,
  a stream read and a property read of \<^verbatim>\<open>null\<close> throw, and what the source itself throws.
\<close>

datatype js_error = Error (message: string)

text \<open>The result objects \<^verbatim>\<open>{ success: true, data }\<close> and \<^verbatim>\<open>{ success: false, error }\<close>.\<close>

datatype 'a result = Success 'a | Failure string

section \<open>The platform\<close>

text \<open>
  A response has its \<^verbatim>\<open>ok\<close> flag, the outcome of \<^verbatim>\<open>response.json()\<close> and its body stream
  (\<^verbatim>\<open>null\<close> for a response without a body). The stream is given by the outcome of each
  \<^verbatim>\<open>reader.read()\<close> in turn: \<^verbatim>\<open>{ done: false, value }\<close>, \<^verbatim>\<open>{ done: true }\<close> or a rejection. A stream
  need not end.
\<close>

type_synonym bytes = "8 word list"

datatype read_result = Chunk bytes | Done | ReadError js_error

record response =
  resp_ok :: bool
  resp_json :: "js_error + jsval"
  resp_body :: "(nat \<Rightarrow> read_result) option"

text \<open>
  The options of a request. The body is the JSON document that the text passed to
  \<^verbatim>\<open>fetch\<close> encodes.
\<close>

record request_init =
  req_method :: "string option"
  req_headers :: "string \<rightharpoonup> string"
  req_body :: "jsval option"

text \<open>
  What a run does to the outside is recorded in order: the requests issued, the dialogs
  shown, the lines written to the console, the timers set, and, for the streaming reader,
  each read of the stream and each call of the caller's callback with its argument.
\<close>

datatype event =
    Fetch string request_init
  | ConsoleError js_error
  | Alert string
  | Confirm string
  | PreventDefault
  | SetTimeout nat
  | Read
  | Callback string

record world =
  events :: "event list"

text \<open>
  What the program does not define and its environment decides: the answer of the network
  to each request, the user's answer to a confirmation dialog, the conversion of a value
  that is not a string to a string, the \<^verbatim>\<open>TypeError\<close> of a property read of \<^verbatim>\<open>null\<close> or
  \<^verbatim>\<open>undefined\<close>, and \<^verbatim>\<open>encodeURIComponent\<close>. The network and the user may answer by what
  happened before.
\<close>

record platform =
  server :: "event list \<Rightarrow> string \<Rightarrow> request_init \<Rightarrow> js_error + response"
  user_confirms :: "event list \<Rightarrow> string \<Rightarrow> bool"
  to_string :: "jsval \<Rightarrow> string"
  cannot_read :: "jsval \<Rightarrow> string \<Rightarrow> js_error"
  encodeURIComponent :: "string \<Rightarrow> string"

text \<open>
  A \<^verbatim>\<open>TextDecoder\<close> used with \<^verbatim>\<open>{ stream: true }\<close> keeps the bytes of an unfinished character
  from one call to the next: a state, and a step from a state and a chunk of bytes to the
  decoded text and the next state.
\<close>

record 'd text_decoder =
  new_TextDecoder :: 'd
  decode :: "'d \<Rightarrow> bytes \<Rightarrow> string \<times> 'd"

section \<open>Statements that may throw\<close>

text \<open>
  A function of the source is run on a state; it changes the state and either returns a
  value or throws. What it did to the state before it threw stays done. An \<^verbatim>\<open>async\<close>
  function that throws is a rejected promise, and \<^verbatim>\<open>await\<close> of it throws in the caller.
  One user action runs at a time, from its start to its end.
\<close>

type_synonym ('w, 'a) action = "'w \<Rightarrow> (js_error + 'a) \<times> 'w"

definition returns :: "'a \<Rightarrow> ('w, 'a) action" where
  "returns x w = (Inr x, w)"

definition throws :: "js_error \<Rightarrow> ('w, 'a) action" where
  "throws e w = (Inl e, w)"

definition completes :: "js_error + 'a \<Rightarrow> ('w, 'a) action" where
  "completes r w = (r, w)"

definition and_then :: "('w, 'a) action \<Rightarrow> ('a \<Rightarrow> ('w, 'b) action) \<Rightarrow> ('w, 'b) action" where
  "and_then m f w = (case m w of (Inl e, w') \<Rightarrow> (Inl e, w') | (Inr x, w') \<Rightarrow> f x w')"

definition try_catch :: "('w, 'a) action \<Rightarrow> (js_error \<Rightarrow> ('w, 'a) action) \<Rightarrow> ('w, 'a) action" where
  "try_catch m h w = (case m w of (Inl e, w') \<Rightarrow> h e w' | (Inr x, w') \<Rightarrow> (Inr x, w'))"

definition modify :: "('w \<Rightarrow> 'w) \<Rightarrow> ('w, unit) action" where
  "modify f w = (Inr (), f w)"

definition emit :: "event \<Rightarrow> ('w world_scheme, unit) action" where
  "emit ev w = (Inr (), w\<lparr>events := events w @ [ev]\<rparr>)"

text \<open>\<^verbatim>\<open>String(v)\<close>, as a template literal and the \<^verbatim>\<open>Error\<close> constructor apply it.\<close>

definition ToString :: "platform \<Rightarrow> jsval \<Rightarrow> string" where
  "ToString pf v = (case v of JStr s \<Rightarrow> s | _ \<Rightarrow> to_string pf v)"

text \<open>\<^verbatim>\<open>new Error(v)\<close>\<close>

definition new_Error :: "platform \<Rightarrow> jsval \<Rightarrow> js_error" where
  "new_Error pf v = Error (ToString pf v)"

text \<open>
  The property read \<^verbatim>\<open>v.k\<close>, for the names the program reads (\<^verbatim>\<open>message\<close>, \<^verbatim>\<open>id\<close>, \<^verbatim>\<open>data\<close>,
  \<^verbatim>\<open>complaint\<close>, \<^verbatim>\<open>car\<close>): it throws on \<^verbatim>\<open>null\<close> and \<^verbatim>\<open>undefined\<close>, and is \<^verbatim>\<open>undefined\<close> on an
  object without the property and on a boolean, a Number, a string or an array, which have
  no property of these names.
\<close>

fun get_prop :: "platform \<Rightarrow> jsval \<Rightarrow> string \<Rightarrow> js_error + jsval" where
  "get_prop pf JUndefined k = Inl (cannot_read pf JUndefined k)"
| "get_prop pf JNull k = Inl (cannot_read pf JNull k)"
| "get_prop pf (JObj kvs) k = Inr (case map_of kvs k of None \<Rightarrow> JUndefined | Some v \<Rightarrow> v)"
| "get_prop pf v k = Inr JUndefined"

text \<open>
  \<^verbatim>\<open>JSON.stringify(v)\<close>, as the document its text encodes: a property whose value is
  \<^verbatim>\<open>undefined\<close> is left out, and a Number that is not finite is written \<^verbatim>\<open>null\<close>. The
  program serialises object literals whose other values are strings, booleans, finite
  Numbers and values parsed from JSON, which the text encodes as they are.
\<close>

fun serialized :: "jsval \<Rightarrow> jsval" where
  "serialized (JNum NaN) = JNull"
| "serialized (JNum PosInfinity) = JNull"
| "serialized (JNum NegInfinity) = JNull"
| "serialized v = v"

definition JSON_stringify :: "jsval \<Rightarrow> jsval" where
  "JSON_stringify v =
     (case v of
        JObj kvs \<Rightarrow>
          JObj (map (\<lambda>kv. (fst kv, serialized (snd kv))) (filter (\<lambda>kv. snd kv \<noteq> JUndefined) kvs))
      | _ \<Rightarrow> serialized v)"

text \<open>\<^verbatim>\<open>fetch(url, init)\<close>: the request is issued, and the network answers.\<close>

definition fetch :: "platform \<Rightarrow> string \<Rightarrow> request_init \<Rightarrow> ('w world_scheme, response) action" where
  "fetch pf url init w = (server pf (events w) url init, w\<lparr>events := events w @ [Fetch url init]\<rparr>)"

text \<open>\<^verbatim>\<open>alert(msg)\<close> and \<^verbatim>\<open>confirm(msg)\<close>\<close>

definition alert :: "string \<Rightarrow> ('w world_scheme, unit) action" where
  "alert msg = emit (Alert msg)"

definition confirm :: "platform \<Rightarrow> string \<Rightarrow> ('w world_scheme, bool) action" where
  "confirm pf msg w = (Inr (user_confirms pf (events w) msg), w\<lparr>events := events w @ [Confirm msg]\<rparr>)"

text \<open>
  White space as \<^verbatim>\<open>trim\<close> and \<^verbatim>\<open>parseInt\<close> strip it: tab, line feed, vertical tab, form
  feed, carriage return, space and no-break space, among the code units below 256.
\<close>

definition white_space :: "char \<Rightarrow> bool" where
  "white_space c = (c \<in> set [CHR 0x09, CHR 0x0A, CHR 0x0B, CHR 0x0C, CHR 0x0D, CHR 0x20, CHR 0xA0])"

definition trim :: "string \<Rightarrow> string" where
  "trim s = rev (dropWhile white_space (rev (dropWhile white_space s)))"

text \<open>
  \<^verbatim>\<open>parseInt(input)\<close> with no radix: leading white space and one sign are skipped, a
  \<^verbatim>\<open>0x\<close> or \<^verbatim>\<open>0X\<close> prefix selects radix 16, and the longest run of digits of the radix is
  read; with no digit the result is \<^verbatim>\<open>NaN\<close>, and else the number value of the integer read,
  with its sign. The number value is the double nearest to the integer, the one with the
  even significand when two are as near: an integer below \<open>2 ^ 53\<close> in magnitude is itself,
  a larger one is rounded to 53 significant bits, and one that rounds to \<open>2 ^ 1024\<close> or more
  is \<^verbatim>\<open>Infinity\<close> or \<^verbatim>\<open>-Infinity\<close>. (The language lets an implementation replace by zero the
  digits after the twentieth significant one of a decimal run; the model reads them all.)
\<close>

definition digit_of :: "char \<Rightarrow> nat option" where
  "digit_of c =
     (let n = (of_char c :: nat) in
      if 48 \<le> n \<and> n \<le> 57 then Some (n - 48)
      else if 97 \<le> n \<and> n \<le> 122 then Some (n - 87)
      else if 65 \<le> n \<and> n \<le> 90 then Some (n - 55)
      else None)"

definition radix_digit :: "nat \<Rightarrow> char \<Rightarrow> bool" where
  "radix_digit R c = (case digit_of c of None \<Rightarrow> False | Some d \<Rightarrow> d < R)"

definition radix_value :: "nat \<Rightarrow> string \<Rightarrow> int" where
  "radix_value R Z =
     foldl (\<lambda>acc c. acc * int R + (case digit_of c of None \<Rightarrow> 0 | Some d \<Rightarrow> int d)) 0 Z"

text \<open>The number of bits of a positive integer.\<close>

function bit_length :: "int \<Rightarrow> nat" where
  "bit_length n = (if n \<le> 0 then 0 else Suc (bit_length (n div 2)))"
  by pat_completeness auto
termination
  by (relation "measure nat") auto

declare bit_length.simps [simp del]

definition round_to_double :: "int \<Rightarrow> number" where
  "round_to_double x =
     (let a = \<bar>x\<bar> in
      if a < 2 ^ 53 then Num (of_int x)
      else if 2 ^ 1024 \<le> a then (if x < 0 then NegInfinity else PosInfinity)
      else
        (let e = bit_length a - 53;
             q = a div 2 ^ e;
             r = a mod 2 ^ e;
             q' = (if 2 ^ (e - 1) < r \<or> (r = 2 ^ (e - 1) \<and> odd q) then q + 1 else q);
             v = q' * 2 ^ e
         in if 2 ^ 1024 \<le> v then (if x < 0 then NegInfinity else PosInfinity)
            else Num (of_int (if x < 0 then - v else v))))"

definition parseInt :: "string \<Rightarrow> number" where
  "parseInt input =
     (let S = dropWhile white_space input;
          sign = (case S of c # r \<Rightarrow> if c = CHR ''-'' then - 1 else 1 | [] \<Rightarrow> (1::int));
          S1 = (case S of c # r \<Rightarrow> if c = CHR ''-'' \<or> c = CHR ''+'' then r else S | [] \<Rightarrow> S);
          hex = (case S1 of c # x # r \<Rightarrow> c = CHR ''0'' \<and> (x = CHR ''x'' \<or> x = CHR ''X'') | _ \<Rightarrow> False);
          R = (if hex then 16 else 10);
          S2 = (if hex then drop 2 S1 else S1);
          Z = takeWhile (radix_digit R) S2
      in if Z = [] then NaN else round_to_double (sign * radix_value R Z))"

section \<open>api.js\<close>

text \<open>
  \<^verbatim>\<open>const API_BASE_URL = '/api/v1';\<close> and the entries of \<^verbatim>\<open>API_ENDPOINTS\<close> that the functions
  below use.
\<close>

definition API_BASE_URL :: string where
  "API_BASE_URL = ''/api/v1''"

definition complaints_quickSubmit :: string where
  "complaints_quickSubmit = API_BASE_URL @ ''/complaints/quick-submit/''"

definition cars_byPlate :: string where
  "cars_byPlate = API_BASE_URL @ ''/cars/by_license_plate/''"

definition cars_history :: "platform \<Rightarrow> jsval \<Rightarrow> string" where
  "cars_history pf ident = API_BASE_URL @ ''/cars/'' @ ToString pf ident @ ''/complaint_history/''"

definition chat_sendMessage :: "platform \<Rightarrow> jsval \<Rightarrow> string" where
  "chat_sendMessage pf ident = API_BASE_URL @ ''/chat/sessions/'' @ ToString pf ident @ ''/send_message/''"

definition chat_closeSession :: "platform \<Rightarrow> jsval \<Rightarrow> string" where
  "chat_closeSession pf ident = API_BASE_URL @ ''/chat/sessions/'' @ ToString pf ident @ ''/close/''"

text \<open>
  \<^verbatim>\<open>async function apiRequest(url, options = {}) {
    const defaultOptions = {
        headers: {
            'Content-Type': 'application/json',
        },
    };

    const finalOptions = {
        ...defaultOptions,
        ...options,
        headers: {
            ...defaultOptions.headers,
            ...options.headers,
        },
    };

    try {
        const response = await fetch(url, finalOptions);
        const data = await response.json();

        if (!response.ok) {
            throw new Error(data.message || 'API request failed');
        }

        return { success: true, data };
    } catch (error) {
        console.error('API Error:', error);
        return { success: false, error: error.message };
    }
}\<close>
  The options are \<^verbatim>\<open>null\<close>, or an object with an optional method, optional headers and an
  optional body, as at every call; \<open>no_options\<close> is \<^verbatim>\<open>{}\<close>, which a call without the argument,
  or with \<^verbatim>\<open>undefined\<close>, passes by default. \<open>finalOptions\<close> is built before the \<^verbatim>\<open>try\<close>: a
  spread of \<^verbatim>\<open>null\<close> adds nothing, and \<^verbatim>\<open>options.headers\<close> throws on \<^verbatim>\<open>null\<close>, to the caller.
\<close>

datatype options_value = NullOptions | Options request_init

definition no_options :: request_init where
  "no_options = \<lparr>req_method = None, req_headers = Map.empty, req_body = None\<rparr>"

definition defaultOptions :: request_init where
  "defaultOptions =
     \<lparr>req_method = None, req_headers = [''Content-Type'' \<mapsto> ''application/json''], req_body = None\<rparr>"

definition finalOptions :: "request_init \<Rightarrow> request_init" where
  "finalOptions options =
     \<lparr>req_method = (case req_method options of None \<Rightarrow> req_method defaultOptions | Some m \<Rightarrow> Some m),
      req_headers = req_headers defaultOptions ++ req_headers options,
      req_body = (case req_body options of None \<Rightarrow> req_body defaultOptions | Some b \<Rightarrow> Some b)\<rparr>"

definition finalOptions_of :: "platform \<Rightarrow> options_value \<Rightarrow> js_error + request_init" where
  "finalOptions_of pf options =
     (case options of
        NullOptions \<Rightarrow> Inl (cannot_read pf JNull ''headers'')
      | Options given \<Rightarrow> Inr (finalOptions given))"

definition apiRequest :: "platform \<Rightarrow> string \<Rightarrow> options_value \<Rightarrow> ('w world_scheme, jsval result) action" where
  "apiRequest pf url options =
     and_then (completes (finalOptions_of pf options)) (\<lambda>final.
     try_catch
       (and_then (fetch pf url final) (\<lambda>response.
        and_then (completes (resp_json response)) (\<lambda>data.
        if \<not> resp_ok response
        then and_then (completes (get_prop pf data ''message'')) (\<lambda>m.
             throws (new_Error pf (js_or m (JStr ''API request failed''))))
        else returns (Success data))))
       (\<lambda>error.
        and_then (emit (ConsoleError error)) (\<lambda>_.
        returns (Failure (message error)))))"

text \<open>
  \<^verbatim>\<open>async function submitComplaint(formData) {
    return apiRequest(API_ENDPOINTS.complaints.quickSubmit, {
        method: 'POST',
        body: JSON.stringify(formData),
    });
}\<close>
\<close>

definition submitComplaint :: "platform \<Rightarrow> jsval \<Rightarrow> ('w world_scheme, jsval result) action" where
  "submitComplaint pf formData =
     apiRequest pf complaints_quickSubmit
       (Options \<lparr>req_method = Some ''POST'', req_headers = Map.empty,
                 req_body = Some (JSON_stringify formData)\<rparr>)"

text \<open>
  \<^verbatim>\<open>async function searchCarByPlate(licensePlate) {
    const url = `${API_ENDPOINTS.cars.byPlate}?plate=${encodeURIComponent(licensePlate)}`;
    return apiRequest(url);
}\<close>
\<close>

definition searchCarByPlate :: "platform \<Rightarrow> string \<Rightarrow> ('w world_scheme, jsval result) action" where
  "searchCarByPlate pf plate =
     apiRequest pf (cars_byPlate @ ''?plate='' @ encodeURIComponent pf plate) (Options no_options)"

text \<open>
  \<^verbatim>\<open>async function getCarComplaintHistory(carId) {
    return apiRequest(API_ENDPOINTS.cars.history(carId));
}\<close>
\<close>

definition getCarComplaintHistory :: "platform \<Rightarrow> jsval \<Rightarrow> ('w world_scheme, jsval result) action" where
  "getCarComplaintHistory pf carId = apiRequest pf (cars_history pf carId) (Options no_options)"

text \<open>
  \<^verbatim>\<open>async function closeChatSession(sessionId) {
    return apiRequest(API_ENDPOINTS.chat.closeSession(sessionId), {
        method: 'POST',
    });
}\<close>
\<close>

definition closeChatSession :: "platform \<Rightarrow> jsval \<Rightarrow> ('w world_scheme, jsval result) action" where
  "closeChatSession pf sessionId =
     apiRequest pf (chat_closeSession pf sessionId)
       (Options \<lparr>req_method = Some ''POST'', req_headers = Map.empty, req_body = None\<rparr>)"

subsection \<open>The streaming reader\<close>

text \<open>
  \<^verbatim>\<open>async function sendChatMessage(sessionId, message, onChunk) {
    const url = API_ENDPOINTS.chat.sendMessage(sessionId);

    try {
        const response = await fetch(url, {
            method: 'POST',
            headers: {
                'Content-Type': 'application/json',
            },
            body: JSON.stringify({ message }),
        });

        if (!response.ok) {
            throw new Error('API request failed');
        }

        const reader = response.body.getReader();
        const decoder = new TextDecoder();
        let fullResponse = '';

        while (true) {
            const { done, value } = await reader.read();
            if (done) break;

            const chunk = decoder.decode(value, { stream: true });
            fullResponse += chunk;

            if (onChunk) {
                onChunk(chunk);
            }
        }

        return { success: true, data: { ai_response: { message: fullResponse } } };

    } catch (error) {
        console.error('API Error:', error);
        return { success: false, error: error.message };
    }
}\<close>
  The callback is the caller's: it is run on the caller's own state, which it may change,
  and it may throw. The caller may pass none.
\<close>

record 'c caller_world = world +
  caller :: 'c

type_synonym 'c callback = "string \<Rightarrow> 'c \<Rightarrow> (js_error + unit) \<times> 'c"

text \<open>\<^verbatim>\<open>if (onChunk) { onChunk(chunk); }\<close>\<close>

definition call_onChunk :: "'c callback option \<Rightarrow> string \<Rightarrow> ('c caller_world, unit) action" where
  "call_onChunk onChunk chunk w =
     (case onChunk of
        None \<Rightarrow> (Inr (), w)
      | Some f \<Rightarrow>
          (case f chunk (caller w) of
             (r, c') \<Rightarrow> (r, w\<lparr>events := events w @ [Callback chunk], caller := c'\<rparr>)))"

text \<open>
  The \<^verbatim>\<open>while (true)\<close> loop, from the \<open>i\<close>-th read on. It returns the accumulated text when
  the stream is done and throws what a read or the callback throws; on a stream that never
  ends it does not return, which is the value \<open>None\<close>.
\<close>

partial_function (option) read_loop ::
  "'d text_decoder \<Rightarrow> 'c callback option \<Rightarrow> (nat \<Rightarrow> read_result) \<Rightarrow> nat \<Rightarrow> 'd \<Rightarrow> string \<Rightarrow>
   'c caller_world \<Rightarrow> ((js_error + string) \<times> 'c caller_world) option"
where
  "read_loop td onChunk reader i decoder fullResponse w =
     (case reader i of
        ReadError e \<Rightarrow> Some (Inl e, w\<lparr>events := events w @ [Read]\<rparr>)
      | Done \<Rightarrow> Some (Inr fullResponse, w\<lparr>events := events w @ [Read]\<rparr>)
      | Chunk val \<Rightarrow>
          (case decode td decoder val of
             (chunk, decoder') \<Rightarrow>
               (case call_onChunk onChunk chunk (w\<lparr>events := events w @ [Read]\<rparr>) of
                  (Inl e, w') \<Rightarrow> Some (Inl e, w')
                | (Inr u, w') \<Rightarrow>
                    read_loop td onChunk reader (Suc i) decoder' (fullResponse @ chunk) w')))"

declare read_loop.simps [code]

definition sendChatMessage_request :: "jsval \<Rightarrow> request_init" where
  "sendChatMessage_request msg =
     \<lparr>req_method = Some ''POST'',
      req_headers = [''Content-Type'' \<mapsto> ''application/json''],
      req_body = Some (JSON_stringify (JObj [(''message'', msg)]))\<rparr>"

text \<open>The body of the \<^verbatim>\<open>try\<close> block.\<close>

definition sendChatMessage_try ::
  "'d text_decoder \<Rightarrow> platform \<Rightarrow> string \<Rightarrow> jsval \<Rightarrow> 'c callback option \<Rightarrow>
   'c caller_world \<Rightarrow> ((js_error + jsval result) \<times> 'c caller_world) option"
where
  "sendChatMessage_try td pf url msg onChunk w =
     (case fetch pf url (sendChatMessage_request msg) w of
        (Inl e, w1) \<Rightarrow> Some (Inl e, w1)
      | (Inr response, w1) \<Rightarrow>
          if \<not> resp_ok response then Some (Inl (Error ''API request failed''), w1)
          else
            (case resp_body response of
               None \<Rightarrow> Some (Inl (cannot_read pf JNull ''getReader''), w1)
             | Some reader \<Rightarrow>
                 (case read_loop td onChunk reader 0 (new_TextDecoder td) [] w1 of
                    None \<Rightarrow> None
                  | Some (Inl e, w2) \<Rightarrow> Some (Inl e, w2)
                  | Some (Inr fullResponse, w2) \<Rightarrow>
                      Some (Inr (Success (JObj [(''ai_response'', JObj [(''message'', JStr fullResponse)])])),
                            w2))))"

definition sendChatMessage ::
  "'d text_decoder \<Rightarrow> platform \<Rightarrow> jsval \<Rightarrow> jsval \<Rightarrow> 'c callback option \<Rightarrow>
   'c caller_world \<Rightarrow> ((js_error + jsval result) \<times> 'c caller_world) option"
where
  "sendChatMessage td pf sessionId msg onChunk w =
     (case sendChatMessage_try td pf (chat_sendMessage pf sessionId) msg onChunk w of
        None \<Rightarrow> None
      | Some (Inl error, w') \<Rightarrow>
          Some (and_then (emit (ConsoleError error)) (\<lambda>_. returns (Failure (message error))) w')
      | Some (Inr r, w') \<Rightarrow> Some (Inr r, w'))"

section \<open>The application logic\<close>

text \<open>
  The second source file holds the state and the user actions of the page. Its globals
  \<^verbatim>\<open>let currentComplaint = null; let currentChatSession = null; let currentCar = null;\<close>
  and the page are the state. The page is given by the properties of the elements that
  the functions below read and write; its markup is not part of the sources, and every
  element they look up by its id is taken to be there.
\<close>

record page =
  customerName :: string
  customerEmail :: string
  customerPhone :: string
  licensePlate :: string
  carMake :: string
  carModel :: string
  carYear :: string
  carMileage :: string
  complaintText :: string
  crash :: bool
  fire :: bool
  searchPlate :: string
  loadingSpinner_display :: string
  chat_display :: string
  searchResults_innerHTML :: string
  complaintId_textContent :: string
  predictedCategory_textContent :: string
  confidence_innerHTML :: string
  analysisContent_innerHTML :: string
  analysisSection_display :: string
  resultCard_display :: string

record browser = world +
  currentComplaint :: jsval
  currentChatSession :: jsval
  currentCar :: jsval
  document :: page

text \<open>
  \<^verbatim>\<open>displayComplaintResult\<close> and \<^verbatim>\<open>displaySearchResults\<close> write what they are given into the
  page, and throw when it lacks what they read. Nothing below depends on what they write:
  each is any function on the page.
\<close>

type_synonym renderer = "jsval \<Rightarrow> page \<Rightarrow> (js_error + unit) \<times> page"

definition render :: "renderer \<Rightarrow> jsval \<Rightarrow> (browser, unit) action" where
  "render f v b = (case f v (document b) of (r, p) \<Rightarrow> (r, b\<lparr>document := p\<rparr>))"

text \<open>
  \<^verbatim>\<open>function showLoading(show) {
    const spinner = document.getElementById('loadingSpinner');
    spinner.style.display = show ? 'flex' : 'none';
}\<close>
\<close>

definition showLoading :: "bool \<Rightarrow> (browser, unit) action" where
  "showLoading show =
     modify (\<lambda>b. b\<lparr>document := (document b)\<lparr>loadingSpinner_display := (if show then ''flex'' else ''none'')\<rparr>\<rparr>)"

subsection \<open>Confidence colouring\<close>

text \<open>
  \<^verbatim>\<open>function getConfidenceColor(confidence) {
    if (confidence >= 0.8) return '#10b981';
    if (confidence >= 0.6) return '#f59e0b';
    return '#ef4444';
}\<close>
\<close>

definition getConfidenceColor :: "number \<Rightarrow> string" where
  "getConfidenceColor confidence =
     (if js_ge confidence literal_0_8 then ''#10b981''
      else if js_ge confidence literal_0_6 then ''#f59e0b''
      else ''#ef4444'')"

subsection \<open>Markdown rendering\<close>

text \<open>
  \<^verbatim>\<open>function renderMarkdown(text) {
    return text
        .replace(/\*\*(.*?)\*\*/g, '<strong>$1</strong>') // Bold
        .replace(/^### (.+)$/gm, '<h3>$1</h3>') // Headers (multiline)
        .replace(/^- (.+)$/gm, '<li>$1</li>') // List items (multiline)
        .replace(/\n/g, '<br>'); // Newlines
}\<close>
  The four patterns are sequences of these pieces: a literal character; \<^verbatim>\<open>^\<close> and \<^verbatim>\<open>$\<close>
  under the \<^verbatim>\<open>m\<close> flag; the group \<^verbatim>\<open>(.*?)\<close>, which takes as few characters as the rest of
  the pattern allows; the group \<^verbatim>\<open>(.+)\<close>, which takes as many as it allows and at least
  one. The dot matches every character but a line terminator.
\<close>

definition LF :: char where "LF = CHR 0x0A"
definition CR :: char where "CR = CHR 0x0D"

definition line_terminator :: "char \<Rightarrow> bool" where
  "line_terminator c = (c = LF \<or> c = CR)"

datatype piece = Chr char | Caret | Dollar | LazyDots | GreedyDots

text \<open>A match: the text of group 1, the last character before its end, and the input after it.\<close>

record matched =
  group1 :: string
  last_char :: "char option"
  rest :: string

text \<open>
  The match of a pattern at one position, by backtracking: \<open>prev\<close> is the character
  before the position (none at the start of the input) and \<open>s\<close> the input from it.
\<close>

fun rmatch :: "piece list \<Rightarrow> char option \<Rightarrow> string \<Rightarrow> matched option" where
  "rmatch [] prev s = Some \<lparr>group1 = [], last_char = prev, rest = s\<rparr>"
| "rmatch (Chr c # ps) prev [] = None"
| "rmatch (Chr c # ps) prev (x # xs) = (if x = c then rmatch ps (Some x) xs else None)"
| "rmatch (Caret # ps) prev s =
     (case prev of
        None \<Rightarrow> rmatch ps prev s
      | Some p \<Rightarrow> if line_terminator p then rmatch ps prev s else None)"
| "rmatch (Dollar # ps) prev s =
     (case s of
        [] \<Rightarrow> rmatch ps prev s
      | x # xs \<Rightarrow> if line_terminator x then rmatch ps prev s else None)"
| "rmatch (LazyDots # ps) prev s =
     (case rmatch ps prev s of
        Some m \<Rightarrow> Some (m\<lparr>group1 := []\<rparr>)
      | None \<Rightarrow>
          (case s of
             [] \<Rightarrow> None
           | x # xs \<Rightarrow>
               if line_terminator x then None
               else (case rmatch (LazyDots # ps) (Some x) xs of
                       None \<Rightarrow> None
                     | Some m \<Rightarrow> Some (m\<lparr>group1 := x # group1 m\<rparr>))))"
| "rmatch (GreedyDots # ps) prev [] = None"
| "rmatch (GreedyDots # ps) prev (x # xs) =
     (if line_terminator x then None
      else (case rmatch (GreedyDots # ps) (Some x) xs of
              Some m \<Rightarrow> Some (m\<lparr>group1 := x # group1 m\<rparr>)
            | None \<Rightarrow>
                (case rmatch ps (Some x) xs of
                   Some m \<Rightarrow> Some (m\<lparr>group1 := [x]\<rparr>)
                 | None \<Rightarrow> None)))"

text \<open>A replacement string: literal text and \<^verbatim>\<open>$1\<close>.\<close>

datatype tpiece = Text string | Group1

fun expand :: "tpiece list \<Rightarrow> string \<Rightarrow> string" where
  "expand [] g = []"
| "expand (Text t # ts) g = t @ expand ts g"
| "expand (Group1 # ts) g = g @ expand ts g"

text \<open>
  \<^verbatim>\<open>s.replace(re, tmpl)\<close> under the \<^verbatim>\<open>g\<close> flag: from left to right, a match is replaced and
  the search goes on after it (one character further after an empty match); a character
  at which nothing matches is kept.
\<close>

function replace_g :: "piece list \<Rightarrow> tpiece list \<Rightarrow> char option \<Rightarrow> string \<Rightarrow> string" where
  "replace_g re tmpl prev s =
     (case rmatch re prev s of
        None \<Rightarrow>
          (case s of
             [] \<Rightarrow> []
           | x # xs \<Rightarrow> x # replace_g re tmpl (Some x) xs)
      | Some m \<Rightarrow>
          if length (rest m) < length s
          then expand tmpl (group1 m) @ replace_g re tmpl (last_char m) (rest m)
          else expand tmpl (group1 m) @
            (case s of
               [] \<Rightarrow> []
             | x # xs \<Rightarrow> x # replace_g re tmpl (Some x) xs))"
  by pat_completeness auto
termination
  by (relation "measure (\<lambda>(re, tmpl, prev, s). length s)") auto

definition bold :: "string \<Rightarrow> string" where
  "bold s = replace_g [Chr CHR ''*'', Chr CHR ''*'', LazyDots, Chr CHR ''*'', Chr CHR ''*'']
     [Text ''<strong>'', Group1, Text ''</strong>''] None s"

definition headers :: "string \<Rightarrow> string" where
  "headers s = replace_g [Caret, Chr CHR ''#'', Chr CHR ''#'', Chr CHR ''#'', Chr CHR '' '', GreedyDots, Dollar]
     [Text ''<h3>'', Group1, Text ''</h3>''] None s"

definition list_items :: "string \<Rightarrow> string" where
  "list_items s = replace_g [Caret, Chr CHR ''-'', Chr CHR '' '', GreedyDots, Dollar]
     [Text ''<li>'', Group1, Text ''</li>''] None s"

definition newlines :: "string \<Rightarrow> string" where
  "newlines s = replace_g [Chr LF] [Text ''<br>''] None s"

definition renderMarkdown :: "string \<Rightarrow> string" where
  "renderMarkdown text = newlines (list_items (headers (bold text)))"

subsection \<open>Submitting a complaint\<close>

text \<open>
  \<^verbatim>\<open>async function handleComplaintSubmit(e) {
    e.preventDefault();

    const formData = {
        customer_name: document.getElementById('customerName').value,
        customer_email: document.getElementById('customerEmail').value,
        customer_phone: document.getElementById('customerPhone').value,
        license_plate: document.getElementById('licensePlate').value,
        car_make: document.getElementById('carMake').value,
        car_model: document.getElementById('carModel').value,
        car_year: parseInt(document.getElementById('carYear').value) || undefined,
        car_mileage: parseInt(document.getElementById('carMileage').value) || 0,
        complaint_text: document.getElementById('complaintText').value,
        crash: document.getElementById('crash').checked,
        fire: document.getElementById('fire').checked,
    };

    // Validate at least email or phone
    if (!formData.customer_email && !formData.customer_phone) {
        alert('Please provide at least an email or phone number.');
        return;
    }

    showLoading(true);

    const result = await submitComplaint(formData);

    showLoading(false);

    if (result.success) {
        currentComplaint = result.data.data.complaint;
        currentCar = result.data.data.car;

        displayComplaintResult(result.data.data);

        // Scroll to result
        setTimeout(() => {
            document.getElementById('resultCard').scrollIntoView({ behavior: 'smooth' });
        }, 300);
    } else {
        alert('Error submitting complaint: ' + result.error);
    }
}\<close>
\<close>

definition formData_of :: "page \<Rightarrow> jsval" where
  "formData_of p =
     JObj
       [(''customer_name'', JStr (customerName p)),
        (''customer_email'', JStr (customerEmail p)),
        (''customer_phone'', JStr (customerPhone p)),
        (''license_plate'', JStr (licensePlate p)),
        (''car_make'', JStr (carMake p)),
        (''car_model'', JStr (carModel p)),
        (''car_year'', js_or (JNum (parseInt (carYear p))) JUndefined),
        (''car_mileage'', js_or (JNum (parseInt (carMileage p))) (JNum (Num 0))),
        (''complaint_text'', JStr (complaintText p)),
        (''crash'', JBool (crash p)),
        (''fire'', JBool (fire p))]"

definition handleComplaintSubmit :: "platform \<Rightarrow> renderer \<Rightarrow> (browser, unit) action" where
  "handleComplaintSubmit pf displayComplaintResult =
     and_then (emit PreventDefault) (\<lambda>_ b.
       let formData = formData_of (document b) in
       if \<not> truthy (JStr (customerEmail (document b))) \<and> \<not> truthy (JStr (customerPhone (document b)))
       then alert ''Please provide at least an email or phone number.'' b
       else
         and_then (showLoading True) (\<lambda>_.
         and_then (submitComplaint pf formData) (\<lambda>result.
         and_then (showLoading False) (\<lambda>_.
         case result of
           Success d \<Rightarrow>
             and_then (completes (get_prop pf d ''data'')) (\<lambda>inner.
             and_then (completes (get_prop pf inner ''complaint'')) (\<lambda>complaint.
             and_then (modify (\<lambda>b. b\<lparr>currentComplaint := complaint\<rparr>)) (\<lambda>_.
             and_then (completes (get_prop pf inner ''car'')) (\<lambda>car.
             and_then (modify (\<lambda>b. b\<lparr>currentCar := car\<rparr>)) (\<lambda>_.
             and_then (render displayComplaintResult inner) (\<lambda>_.
             emit (SetTimeout 300)))))))
         | Failure err \<Rightarrow> alert (''Error submitting complaint: '' @ err)))) b)"

subsection \<open>Closing the chat\<close>

text \<open>
  \<^verbatim>\<open>async function closeChat() {
    if (!currentChatSession) return;

    const confirmed = confirm('Are you sure you want to close this chat session?');
    if (!confirmed) return;

    showLoading(true);

    await closeChatSession(currentChatSession.id);

    showLoading(false);

    // Hide chat section
    document.getElementById('chat').style.display = 'none';

    // Reset state
    currentChatSession = null;

    alert('Chat session closed successfully');
}\<close>
\<close>

definition closeChat :: "platform \<Rightarrow> (browser, unit) action" where
  "closeChat pf b =
     (if \<not> truthy (currentChatSession b) then returns () b
      else
        and_then (confirm pf ''Are you sure you want to close this chat session?'') (\<lambda>confirmed.
        if \<not> confirmed then returns ()
        else
          and_then (showLoading True) (\<lambda>_.
          and_then (\<lambda>b. completes (get_prop pf (currentChatSession b) ''id'') b) (\<lambda>ident.
          and_then (closeChatSession pf ident) (\<lambda>_.
          and_then (showLoading False) (\<lambda>_.
          and_then (modify (\<lambda>b. b\<lparr>document := (document b)\<lparr>chat_display := ''none''\<rparr>\<rparr>)) (\<lambda>_.
          and_then (modify (\<lambda>b. b\<lparr>currentChatSession := JNull\<rparr>)) (\<lambda>_.
          alert ''Chat session closed successfully''))))))) b)"

subsection \<open>Searching a vehicle\<close>

text \<open>
  \<^verbatim>\<open>async function searchVehicle() {
    const licensePlate = document.getElementById('searchPlate').value.trim();

    if (!licensePlate) {
        alert('Please enter a license plate number');
        return;
    }

    showLoading(true);

    const result = await searchCarByPlate(licensePlate);

    showLoading(false);

    if (result.success) {
        const car = result.data;

        // Get complaint history
        const historyResult = await getCarComplaintHistory(car.id);

        if (historyResult.success) {
            displaySearchResults(historyResult.data);
        }
    } else {
        document.getElementById('searchResults').innerHTML =
            '<div class="search-card"><p>No vehicle found with this license plate.</p></div>';
    }
}\<close>
\<close>

definition searchVehicle :: "platform \<Rightarrow> renderer \<Rightarrow> (browser, unit) action" where
  "searchVehicle pf displaySearchResults b =
     (let plate = trim (searchPlate (document b)) in
      if \<not> truthy (JStr plate) then alert ''Please enter a license plate number'' b
      else
        and_then (showLoading True) (\<lambda>_.
        and_then (searchCarByPlate pf plate) (\<lambda>result.
        and_then (showLoading False) (\<lambda>_.
        case result of
          Success car \<Rightarrow>
            and_then (completes (get_prop pf car ''id'')) (\<lambda>ident.
            and_then (getCarComplaintHistory pf ident) (\<lambda>historyResult.
            case historyResult of
              Success history \<Rightarrow> render displaySearchResults history
            | Failure err \<Rightarrow> returns ()))
        | Failure err \<Rightarrow>
            modify (\<lambda>b. b\<lparr>document := (document b)\<lparr>searchResults_innerHTML :=
              ''<div class='' @ [CHR 0x22] @ ''search-card'' @ [CHR 0x22] @
              ''><p>No vehicle found with this license plate.</p></div>''\<rparr>\<rparr>)))) b)"

section \<open>Vocabulary of the statements\<close>

text \<open>The three tiers of the confidence scale, by the colour each one is drawn in.\<close>

definition green_tier :: string where "green_tier = ''#10b981''"
definition amber_tier :: string where "amber_tier = ''#f59e0b''"
definition red_tier :: string where "red_tier = ''#ef4444''"

text \<open>The requests issued, the alerts shown and the arguments of the callback, in order.\<close>

fun fetches :: "event list \<Rightarrow> (string \<times> request_init) list" where
  "fetches [] = []"
| "fetches (Fetch url init # evs) = (url, init) # fetches evs"
| "fetches (ev # evs) = fetches evs"

fun alerts :: "event list \<Rightarrow> string list" where
  "alerts [] = []"
| "alerts (Alert msg # evs) = msg # alerts evs"
| "alerts (ev # evs) = alerts evs"

fun callback_arguments :: "event list \<Rightarrow> string list" where
  "callback_arguments [] = []"
| "callback_arguments (Callback chunk # evs) = chunk # callback_arguments evs"
| "callback_arguments (ev # evs) = callback_arguments evs"

text \<open>The field of a JSON document: none when the document is no object or lacks it.\<close>

definition field_of :: "jsval \<Rightarrow> string \<Rightarrow> jsval option" where
  "field_of v k = (case v of JObj kvs \<Rightarrow> map_of kvs k | _ \<Rightarrow> None)"

text \<open>
  From its \<open>i\<close>-th read on, the stream delivers the chunks \<open>vs\<close> and then answers \<open>fin\<close>: that
  it is done, or an exception.
\<close>

fun stream_is :: "(nat \<Rightarrow> read_result) \<Rightarrow> nat \<Rightarrow> bytes list \<Rightarrow> read_result \<Rightarrow> bool" where
  "stream_is reader i [] fin = (reader i = fin)"
| "stream_is reader i (v # vs) fin = (reader i = Chunk v \<and> stream_is reader (Suc i) vs fin)"

text \<open>The text of each chunk, as the decoder gives it when it is fed the chunks in order.\<close>

fun decoded :: "'d text_decoder \<Rightarrow> 'd \<Rightarrow> bytes list \<Rightarrow> string list" where
  "decoded td d [] = []"
| "decoded td d (v # vs) = (case decode td d v of (chunk, d') \<Rightarrow> chunk # decoded td d' vs)"

text \<open>
  The callback called once for each text in order, each call on the state the one before
  left, up to the first call that throws.
\<close>

fun run_callbacks :: "'c callback option \<Rightarrow> string list \<Rightarrow> 'c \<Rightarrow> (js_error + unit) \<times> 'c" where
  "run_callbacks None chunks c = (Inr (), c)"
| "run_callbacks (Some f) [] c = (Inr (), c)"
| "run_callbacks (Some f) (chunk # chunks) c =
     (case f chunk c of
        (Inl e, c') \<Rightarrow> (Inl e, c')
      | (Inr u, c') \<Rightarrow> run_callbacks (Some f) chunks c')"

text \<open>One read for each chunk, each followed at once by the call of the callback, when there is one.\<close>

fun chunk_events :: "'c callback option \<Rightarrow> string list \<Rightarrow> event list" where
  "chunk_events onChunk [] = []"
| "chunk_events None (chunk # chunks) = Read # chunk_events None chunks"
| "chunk_events (Some f) (chunk # chunks) = Read # Callback chunk # chunk_events (Some f) chunks"

section \<open>A sample environment\<close>

text \<open>
  A network with a few answers, a user who confirms, and a page with nothing entered, on
  which the statements are tried.
\<close>

definition json_response :: "bool \<Rightarrow> jsval \<Rightarrow> response" where
  "json_response status_ok v = \<lparr>resp_ok = status_ok, resp_json = Inr v, resp_body = None\<rparr>"

definition script :: "read_result list \<Rightarrow> nat \<Rightarrow> read_result" where
  "script rs i = (if i < length rs then rs ! i else Done)"

definition stream_response :: "bool \<Rightarrow> read_result list \<Rightarrow> response" where
  "stream_response status_ok rs =
     \<lparr>resp_ok = status_ok, resp_json = Inl (Error ''Unexpected token H in JSON''),
      resp_body = Some (script rs)\<rparr>"

definition sample_server :: "event list \<Rightarrow> string \<Rightarrow> request_init \<Rightarrow> js_error + response" where
  "sample_server evs url init =
     (if url = ''/api/v1/complaints/statistics/''
        then Inr (json_response True (JObj [(''total'', JNum (Num 3))]))
      else if url = ''/api/v1/cars/''
        then Inr \<lparr>resp_ok = True, resp_json = Inl (Error ''Unexpected end of JSON input''), resp_body = None\<rparr>
      else if url = ''/api/v1/complaints/7/''
        then Inr (json_response False (JObj [(''message'', JStr ''Not found.'')]))
      else if url = ''/api/v1/complaints/8/''
        then Inr (json_response False (JObj [(''detail'', JStr ''Not found.'')]))
      else if url = ''/api/v1/complaints/9/''
        then Inr (json_response False (JObj [(''message'', JStr [])]))
      else if url = ''/api/v1/complaints/quick-submit/''
        then Inr (json_response True (JObj [(''data'',
          JObj [(''complaint'', JObj [(''id'', JNum (Num 12))]), (''car'', JObj [(''id'', JStr ''c1'')])])]))
      else if url = ''/api/v1/cars/by_license_plate/?plate=ABC123''
        then Inr (json_response True (JObj [(''id'', JStr ''c1'')]))
      else if url = ''/api/v1/cars/c1/complaint_history/''
        then Inr (json_response False (JObj [(''message'', JStr ''Server error'')]))
      else if url = ''/api/v1/chat/sessions/s1/send_message/''
        then Inr (stream_response True [Chunk [0x48, 0x65], Chunk [0x79], Done])
      else if url = ''/api/v1/chat/sessions/s2/send_message/''
        then Inr (stream_response False [Chunk [0x48], Done])
      else if url = ''/api/v1/chat/sessions/s3/send_message/''
        then Inr (stream_response True [Chunk [0x48, 0x65], ReadError (Error ''network error'')])
      else Inl (Error ''Failed to fetch''))"

definition sample :: platform where
  "sample =
     \<lparr>server = sample_server,
      user_confirms = (\<lambda>evs msg. True),
      to_string = (\<lambda>v. ''[object Object]''),
      cannot_read = (\<lambda>v k. Error (''Cannot read properties of null (reading '' @ k @ '')'')),
      encodeURIComponent = (\<lambda>s. s)\<rparr>"

text \<open>A decoder of one character for each byte.\<close>

definition latin1 :: "unit text_decoder" where
  "latin1 = \<lparr>new_TextDecoder = (), decode = (\<lambda>d val. (map (\<lambda>b. char_of (unat b)) val, d))\<rparr>"

text \<open>
  A callback that appends each chunk to the text it has, and one that throws when it is
  given the chunk \<^verbatim>\<open>y\<close>.
\<close>

definition append_chunk :: "string callback" where
  "append_chunk chunk fullResponse = (Inr (), fullResponse @ chunk)"

definition choking_callback :: "string callback" where
  "choking_callback chunk fullResponse =
     (if chunk = ''y'' then (Inl (Error ''callback failed''), fullResponse)
      else (Inr (), fullResponse @ chunk))"

text \<open>A run of 310 decimal digits, the integer \<open>10 ^ 309\<close>.\<close>

definition overlong :: string where
  "overlong = CHR ''1'' # replicate 309 CHR ''0''"

definition no_rendering :: renderer where
  "no_rendering v p = (Inr (), p)"

definition fresh :: world where
  "fresh = \<lparr>events = []\<rparr>"

definition idle :: "string caller_world" where
  "idle = \<lparr>events = [], caller = []\<rparr>"

definition blank_page :: page where
  "blank_page =
     \<lparr>customerName = [], customerEmail = [], customerPhone = [], licensePlate = [], carMake = [],
      carModel = [], carYear = [], carMileage = [], complaintText = [], crash = False, fire = False,
      searchPlate = [], loadingSpinner_display = ''none'', chat_display = ''none'',
      searchResults_innerHTML = [], complaintId_textContent = [], predictedCategory_textContent = [],
      confidence_innerHTML = [], analysisContent_innerHTML = [], analysisSection_display = ''none'',
      resultCard_display = ''none''\<rparr>"

definition start :: browser where
  "start = \<lparr>events = [], currentComplaint = JNull, currentChatSession = JNull, currentCar = JNull,
     document = blank_page\<rparr>"

section \<open>Properties\<close>

lemmas action_defs = returns_def throws_def completes_def and_then_def try_catch_def modify_def emit_def

lemmas parseInt_defs = parseInt_def white_space_def radix_digit_def digit_of_def radix_value_def
  round_to_double_def

subsection \<open>The literals are the nearest doubles\<close>

lemma literal_0_8_nearest:
  "literal_0_8 = Num (7205759403792794 / 2 ^ 53) \<and>
   (2::rat) ^ 52 \<le> 7205759403792794 \<and> (7205759403792794::rat) < 2 ^ 53 \<and>
   \<bar>7205759403792794 / 2 ^ 53 - (8 / 10 :: rat)\<bar> < 1 / 2 ^ 54"
  by (simp add: literal_0_8_def)

lemma literal_0_6_nearest:
  "literal_0_6 = Num (5404319552844595 / 2 ^ 53) \<and>
   (2::rat) ^ 52 \<le> 5404319552844595 \<and> (5404319552844595::rat) < 2 ^ 53 \<and>
   \<bar>5404319552844595 / 2 ^ 53 - (6 / 10 :: rat)\<bar> < 1 / 2 ^ 54"
  by (simp add: literal_0_6_def)

lemma js_lt_not_ge: "js_lt x y \<Longrightarrow> \<not> js_ge x y"
  by (cases x; cases y) auto

lemma js_lt_below: "js_lt x literal_0_6 \<Longrightarrow> js_lt x literal_0_8"
  by (cases x) (auto simp: literal_0_6_def literal_0_8_def)

subsection \<open>The number that parseInt returns\<close>

text \<open>
  An integer below \<open>2 ^ 53\<close> in magnitude is its own number value; above, the nearest
  double is taken, the even one at a tie, and \<^verbatim>\<open>Infinity\<close> from \<open>2 ^ 1024\<close> on.
\<close>

lemma round_to_double_exact: "\<bar>x\<bar> < 2 ^ 53 \<Longrightarrow> round_to_double x = Num (of_int x)"
  by (simp add: round_to_double_def)

lemma round_to_double_overflow:
  "2 ^ 1024 \<le> \<bar>x\<bar> \<Longrightarrow> round_to_double x = (if x < 0 then NegInfinity else PosInfinity)"
  by (simp add: round_to_double_def Let_def)

text \<open>
  Above \<open>2 ^ 53\<close> the result is a double of the binade of the integer, a significand of 53
  bits times a power of two, at most half a unit in the last place away from the
  integer, and with an even significand when it is exactly half a unit away.
\<close>

lemma bit_length_bounds: "0 < n \<Longrightarrow> 2 ^ (bit_length n - 1) \<le> n \<and> n < 2 ^ bit_length n"
proof (induction n rule: bit_length.induct)
  case (1 n)
  show ?case
  proof (cases "n div 2 = 0")
    case True
    with 1 have "n = 1" by presburger
    then show ?thesis by (simp add: bit_length.simps)
  next
    case False
    with 1 have pos: "0 < n div 2" by presburger
    from 1 have len: "bit_length n = Suc (bit_length (n div 2))"
      by (subst bit_length.simps) simp
    from pos have lpos: "0 < bit_length (n div 2)"
      by (subst bit_length.simps) simp
    from 1 pos have ih: "2 ^ (bit_length (n div 2) - 1) \<le> n div 2" "n div 2 < 2 ^ bit_length (n div 2)"
      by simp_all
    from lpos have p: "(2::int) ^ bit_length (n div 2) = 2 * 2 ^ (bit_length (n div 2) - 1)"
      by (cases "bit_length (n div 2)") simp_all
    from ih p show ?thesis unfolding len by (simp) presburger
  qed
qed


lemma round_to_double_nearest:
  assumes big: "2 ^ 53 \<le> \<bar>x\<bar>" and res: "round_to_double x = Num v"
  shows "\<exists>q e. v = of_int (sgn x * (q * 2 ^ e)) \<and> 2 ^ 52 \<le> q \<and> q \<le> 2 ^ 53 \<and>
    2 ^ (52 + e) \<le> \<bar>x\<bar> \<and> \<bar>x\<bar> < 2 ^ (53 + e) \<and>
    2 * \<bar>q * 2 ^ e - \<bar>x\<bar>\<bar> \<le> 2 ^ e \<and>
    (2 * \<bar>q * 2 ^ e - \<bar>x\<bar>\<bar> = 2 ^ e \<longrightarrow> even q)"
proof -
  define a where "a = \<bar>x\<bar>"
  define e where "e = bit_length a - 53"
  define q where "q = a div 2 ^ e"
  define r where "r = a mod 2 ^ e"
  define q' where "q' = (if 2 ^ (e - 1) < r \<or> (r = 2 ^ (e - 1) \<and> odd q) then q + 1 else q)"
  from big have apos: "0 < a" and abig: "2 ^ 53 \<le> a" by (simp_all add: a_def)
  from bit_length_bounds [OF apos] have lo: "2 ^ (bit_length a - 1) \<le> a" and hi: "a < 2 ^ bit_length a"
    by simp_all
  have len: "53 < bit_length a"
  proof (rule ccontr)
    assume "\<not> 53 < bit_length a"
    then have "bit_length a \<le> 53" by simp
    then have "(2::int) ^ bit_length a \<le> 2 ^ 53" by (rule power_increasing) simp
    with hi abig show False by simp
  qed
  then have e1: "1 \<le> e" and le: "bit_length a = 53 + e" and le1: "bit_length a - 1 = 52 + e"
    by (simp_all add: e_def)
  have split: "a = q * 2 ^ e + r"
    unfolding q_def r_def by (rule div_mult_mod_eq [symmetric])
  have r0: "0 \<le> r" and r1: "r < 2 ^ e"
    by (simp_all add: r_def)
  have half: "(2::int) ^ e = 2 * 2 ^ (e - 1)"
    using e1 by (cases e) simp_all
  have qlo: "2 ^ 52 \<le> q"
  proof -
    from lo le1 have "2 ^ 52 * 2 ^ e \<le> a" by (simp add: power_add)
    then have "(2 ^ 52 * 2 ^ e) div 2 ^ e \<le> a div 2 ^ e" by (rule zdiv_mono1) simp
    then show ?thesis by (simp add: q_def)
  qed
  have qhi: "q < 2 ^ 53"
  proof -
    from hi le have above: "a < 2 ^ 53 * 2 ^ e" by (simp add: power_add)
    from split r0 have below: "q * 2 ^ e \<le> a" by simp
    show ?thesis
    proof (rule ccontr)
      assume "\<not> q < 2 ^ 53"
      then have "2 ^ 53 \<le> q" by simp
      then have "2 ^ 53 * 2 ^ e \<le> q * 2 ^ e" by (rule mult_right_mono) simp
      then have "2 ^ 53 * 2 ^ e \<le> a" using below by (rule order_trans)
      with above show False by (meson not_less)
    qed
  qed
  have unfolded: "round_to_double x =
      (if a < 2 ^ 53 then Num (of_int x)
       else if 2 ^ 1024 \<le> a then (if x < 0 then NegInfinity else PosInfinity)
       else if 2 ^ 1024 \<le> q' * 2 ^ e then (if x < 0 then NegInfinity else PosInfinity)
       else Num (of_int (if x < 0 then - (q' * 2 ^ e) else q' * 2 ^ e)))"
    unfolding round_to_double_def Let_def q'_def r_def q_def e_def a_def by (rule refl)
  from abig have "\<not> a < 2 ^ 53" by simp
  with res have v: "v = of_int (if x < 0 then - (q' * 2 ^ e) else q' * 2 ^ e)"
    unfolding unfolded by (auto split: if_splits)
  from big have sgn: "(if x < 0 then - (q' * 2 ^ e) else q' * 2 ^ e) = sgn x * (q' * 2 ^ e)"
    by (auto simp: sgn_if)
  have q'lo: "2 ^ 52 \<le> q'" and q'hi: "q' \<le> 2 ^ 53"
    using qlo qhi by (simp_all add: q'_def)
  have diff: "q' * 2 ^ e - a = (if 2 ^ (e - 1) < r \<or> (r = 2 ^ (e - 1) \<and> odd q) then 2 ^ e - r else - r)"
    by (simp add: q'_def split algebra_simps)
  have near: "2 * \<bar>q' * 2 ^ e - a\<bar> \<le> 2 ^ e"
    unfolding diff using r0 r1 half by auto
  have tie: "even q'" if "2 * \<bar>q' * 2 ^ e - a\<bar> = 2 ^ e"
    using that r0 r1 half unfolding diff by (auto simp: q'_def split: if_splits)
  from lo hi le le1 have binade: "2 ^ (52 + e) \<le> a" "a < 2 ^ (53 + e)" by simp_all
  from v sgn q'lo q'hi near tie binade show ?thesis
    unfolding a_def by (intro exI [of _ q'] exI [of _ e]) simp
qed

lemma parseInt_rounds_down: "parseInt ''9007199254740993'' = Num 9007199254740992"
  by code_simp

lemma parseInt_rounds_up: "parseInt ''-9007199254740995'' = Num (- 9007199254740996)"
  by code_simp

lemma parseInt_hexadecimal: "parseInt '' 0x1F'' = Num 31"
  by code_simp

lemma parseInt_overlong: "parseInt overlong = PosInfinity"
  by code_simp

lemma parseInt_overlong_negative: "parseInt (CHR ''-'' # overlong) = NegInfinity"
  by code_simp

subsection \<open>Requests, alerts and the request wrapper\<close>

lemma fetches_append: "fetches (xs @ ys) = fetches xs @ fetches ys"
  by (induction xs rule: fetches.induct) auto

lemma alerts_append: "alerts (xs @ ys) = alerts xs @ alerts ys"
  by (induction xs rule: alerts.induct) auto

text \<open>
  Given options that are an object, the wrapper returns, and all it does to the state is
  to issue its one request and, on a failure, to write to the console. Given \<^verbatim>\<open>null\<close>, it
  throws what reading a property of \<^verbatim>\<open>null\<close> throws, and does nothing else.
\<close>

lemma apiRequest_null_options:
  "apiRequest pf url NullOptions w = (Inl (cannot_read pf JNull ''headers''), w)"
  by (simp add: apiRequest_def finalOptions_of_def action_defs)

lemma apiRequest_effect:
  "\<exists>r evs. apiRequest pf url (Options options) w =
     (Inr r, w\<lparr>events := events w @ Fetch url (finalOptions options) # evs\<rparr>) \<and>
     fetches evs = [] \<and> alerts evs = []"
  by (auto simp: apiRequest_def finalOptions_of_def action_defs fetch_def split: sum.splits prod.splits)

lemma apiRequest_success:
  assumes "server pf (events w) url (finalOptions options) = Inr response"
    and "resp_ok response" and "resp_json response = Inr d"
  shows "apiRequest pf url (Options options) w =
    (Inr (Success d), w\<lparr>events := events w @ [Fetch url (finalOptions options)]\<rparr>)"
  using assms by (simp add: apiRequest_def finalOptions_of_def action_defs fetch_def)

lemma apiRequest_rejected:
  assumes "server pf (events w) url (finalOptions options) = Inr response"
    and "\<not> resp_ok response" and "resp_json response = Inr d"
    and "get_prop pf d ''message'' = Inr (JStr m)" and "m \<noteq> []"
  shows "apiRequest pf url (Options options) w =
    (Inr (Failure m), w\<lparr>events := events w @ [Fetch url (finalOptions options), ConsoleError (Error m)]\<rparr>)"
  using assms by (simp add: apiRequest_def finalOptions_of_def action_defs fetch_def new_Error_def ToString_def js_or_def)

lemma get_prop_truthy: "truthy v \<Longrightarrow> \<exists>x. get_prop pf v k = Inr x"
  by (cases v) auto

subsection \<open>The read loop\<close>

lemma read_loop_stream:
  "stream_is reader i vs fin \<Longrightarrow> fin = Done \<or> fin = ReadError e \<Longrightarrow>
   run_callbacks onChunk (decoded td d vs) (caller w) = (Inr (), c') \<Longrightarrow>
   read_loop td onChunk reader i d full w =
     Some (if fin = Done then Inr (full @ concat (decoded td d vs)) else Inl e,
           w\<lparr>events := events w @ chunk_events onChunk (decoded td d vs) @ [Read], caller := c'\<rparr>)"
proof (induction vs arbitrary: i d full w)
  case Nil
  then show ?case
    by (subst read_loop.simps) (cases onChunk; auto)
next
  case (Cons v vs)
  obtain chunk d' where dec: "decode td d v = (chunk, d')" by (cases "decode td d v")
  from Cons.prems(1) have rd: "reader i = Chunk v" and rest: "stream_is reader (Suc i) vs fin" by simp_all
  show ?case
  proof (cases onChunk)
    case None
    with Cons.prems(3) have c': "c' = caller w" by simp
    let ?w1 = "w\<lparr>events := events w @ [Read]\<rparr>"
    have "read_loop td onChunk reader (Suc i) d' (full @ chunk) ?w1 =
      Some (if fin = Done then Inr ((full @ chunk) @ concat (decoded td d' vs)) else Inl e,
        ?w1\<lparr>events := events ?w1 @ chunk_events onChunk (decoded td d' vs) @ [Read], caller := c'\<rparr>)"
      using Cons.IH [OF rest Cons.prems(2), of d' ?w1 "full @ chunk"] None c' by simp
    then show ?thesis
      using None rd dec c' by (subst read_loop.simps) (simp add: call_onChunk_def)
  next
    case (Some f)
    obtain r c1 where fc: "f chunk (caller w) = (r, c1)" by (cases "f chunk (caller w)")
    with Cons.prems(3) Some dec have r: "r = Inr ()"
      and cb: "run_callbacks onChunk (decoded td d' vs) c1 = (Inr (), c')"
      by (auto split: sum.splits)
    let ?w1 = "w\<lparr>events := events w @ [Read, Callback chunk], caller := c1\<rparr>"
    have "read_loop td onChunk reader (Suc i) d' (full @ chunk) ?w1 =
      Some (if fin = Done then Inr ((full @ chunk) @ concat (decoded td d' vs)) else Inl e,
        ?w1\<lparr>events := events ?w1 @ chunk_events onChunk (decoded td d' vs) @ [Read], caller := c'\<rparr>)"
      using Cons.IH [OF rest Cons.prems(2), of d' ?w1 "full @ chunk"] cb by simp
    then show ?thesis
      using Some rd dec fc r by (subst read_loop.simps) (simp add: call_onChunk_def)
  qed
qed

lemma callback_arguments_chunk_events:
  "callback_arguments (chunk_events onChunk chunks) = (case onChunk of None \<Rightarrow> [] | Some f \<Rightarrow> chunks)"
  by (induction onChunk chunks rule: chunk_events.induct) (auto split: option.splits)

lemma decoded_Hey: "decoded latin1 () [[0x48, 0x65], [0x79]] = [''He'', ''y'']"
  by (simp add: latin1_def) code_simp

lemma decoded_He: "decoded latin1 () [[0x48, 0x65]] = [''He'']"
  by (simp add: latin1_def) code_simp

lemma json_response_sel [simp]:
  "resp_ok (json_response status_ok v) = status_ok"
  "resp_json (json_response status_ok v) = Inr v"
  "resp_body (json_response status_ok v) = None"
  by (simp_all add: json_response_def)

lemma server_sample: "server sample = sample_server"
  by (simp add: sample_def)

lemma sample_chat_url:
  "chat_sendMessage sample (JStr s) = ''/api/v1/chat/sessions/'' @ s @ ''/send_message/''"
  by (simp add: chat_sendMessage_def ToString_def API_BASE_URL_def)

subsection \<open>The streaming reader\<close>

text \<open>
  C1, as amended. For every run of the streaming reader in which the response is
  successful, the stream delivers the chunks \<open>vs\<close> and is then done, and every call of the
  callback returns: the reader returns a success result whose payload wraps the
  concatenation of the decoded chunks as the assistant message; when a callback is given
  it is called once for each decoded chunk, in the order of the stream and before the next
  read, so that its arguments concatenate to that text; and the caller's state is the one
  these calls leave.
\<close>

theorem sendChatMessage_streams:
  assumes "server pf (events w) (chat_sendMessage pf sessionId) (sendChatMessage_request msg) = Inr response"
    and "resp_ok response"
    and "resp_body response = Some reader"
    and "stream_is reader 0 vs Done"
    and "run_callbacks onChunk (decoded td (new_TextDecoder td) vs) (caller w) = (Inr (), c')"
  shows "sendChatMessage td pf sessionId msg onChunk w =
      Some (Inr (Success (JObj [(''ai_response'',
               JObj [(''message'', JStr (concat (decoded td (new_TextDecoder td) vs)))])])),
            w\<lparr>events := events w @
                 Fetch (chat_sendMessage pf sessionId) (sendChatMessage_request msg) #
                 chunk_events onChunk (decoded td (new_TextDecoder td) vs) @ [Read],
              caller := c'\<rparr>) \<and>
    callback_arguments (chunk_events onChunk (decoded td (new_TextDecoder td) vs)) =
      (case onChunk of None \<Rightarrow> [] | Some f \<Rightarrow> decoded td (new_TextDecoder td) vs)"
proof -
  let ?w1 = "w\<lparr>events := events w @ [Fetch (chat_sendMessage pf sessionId) (sendChatMessage_request msg)]\<rparr>"
  have "read_loop td onChunk reader 0 (new_TextDecoder td) [] ?w1 =
      Some (Inr ([] @ concat (decoded td (new_TextDecoder td) vs)),
        ?w1\<lparr>events := events ?w1 @ chunk_events onChunk (decoded td (new_TextDecoder td) vs) @ [Read],
          caller := c'\<rparr>)"
    using read_loop_stream [OF assms(4), of "Error []" onChunk td "new_TextDecoder td" ?w1 c' "[]"] assms(5)
    by simp
  then show ?thesis
    using assms(1-3)
    by (simp add: sendChatMessage_def sendChatMessage_try_def fetch_def callback_arguments_chunk_events)
qed

theorem sendChatMessage_streams_witness:
  "stream_is (script [Chunk [0x48, 0x65], Chunk [0x79], Done]) 0 [[0x48, 0x65], [0x79]] Done \<and>
   run_callbacks (Some append_chunk) [''He'', ''y''] [] = (Inr (), ''Hey'') \<and>
   sendChatMessage latin1 sample (JStr ''s1'') (JStr ''Hi'') (Some append_chunk) idle =
     Some (Inr (Success (JObj [(''ai_response'', JObj [(''message'', JStr ''Hey'')])])),
       \<lparr>events = [Fetch ''/api/v1/chat/sessions/s1/send_message/'' (sendChatMessage_request (JStr ''Hi'')),
          Read, Callback ''He'', Read, Callback ''y'', Read],
        caller = ''Hey''\<rparr>)"
proof -
  let ?reader = "script [Chunk [0x48, 0x65], Chunk [0x79], Done]"
  have srv: "server sample (events idle) (chat_sendMessage sample (JStr ''s1''))
      (sendChatMessage_request (JStr ''Hi'')) =
    Inr (stream_response True [Chunk [0x48, 0x65], Chunk [0x79], Done])"
    by (simp add: server_sample sample_chat_url sample_server_def)
  have ok: "resp_ok (stream_response True [Chunk [0x48, 0x65], Chunk [0x79], Done])"
    and body: "resp_body (stream_response True [Chunk [0x48, 0x65], Chunk [0x79], Done]) = Some ?reader"
    by (simp_all add: stream_response_def)
  have str: "stream_is ?reader 0 [[0x48, 0x65], [0x79]] Done"
    by (simp add: script_def)
  have cbs: "run_callbacks (Some append_chunk) [''He'', ''y''] [] = (Inr (), ''Hey'')"
    by (simp add: append_chunk_def)
  have cbs': "run_callbacks (Some append_chunk)
      (decoded latin1 (new_TextDecoder latin1) [[0x48, 0x65], [0x79]]) (caller idle) = (Inr (), ''Hey'')"
    using cbs decoded_Hey by (simp add: latin1_def idle_def)
  from sendChatMessage_streams [OF srv ok body str cbs']
  have "sendChatMessage latin1 sample (JStr ''s1'') (JStr ''Hi'') (Some append_chunk) idle =
     Some (Inr (Success (JObj [(''ai_response'', JObj [(''message'', JStr ''Hey'')])])),
       \<lparr>events = [Fetch ''/api/v1/chat/sessions/s1/send_message/'' (sendChatMessage_request (JStr ''Hi'')),
          Read, Callback ''He'', Read, Callback ''y'', Read],
        caller = ''Hey''\<rparr>)"
    using decoded_Hey
    by (simp add: latin1_def idle_def sample_chat_url)
  with str cbs show ?thesis by simp
qed

text \<open>
  The response is successful and the stream delivers both of its chunks, which decode to
  \<^verbatim>\<open>He\<close> and \<^verbatim>\<open>y\<close>; the callback throws on the second, and the reader returns a failure
  result.
\<close>

theorem sendChatMessage_callback_counterexample:
  "server sample [] ''/api/v1/chat/sessions/s1/send_message/'' (sendChatMessage_request (JStr ''Hi'')) =
     Inr (stream_response True [Chunk [0x48, 0x65], Chunk [0x79], Done]) \<and>
   resp_ok (stream_response True [Chunk [0x48, 0x65], Chunk [0x79], Done]) \<and>
   resp_body (stream_response True [Chunk [0x48, 0x65], Chunk [0x79], Done]) =
     Some (script [Chunk [0x48, 0x65], Chunk [0x79], Done]) \<and>
   stream_is (script [Chunk [0x48, 0x65], Chunk [0x79], Done]) 0 [[0x48, 0x65], [0x79]] Done \<and>
   decoded latin1 () [[0x48, 0x65], [0x79]] = [''He'', ''y''] \<and>
   sendChatMessage latin1 sample (JStr ''s1'') (JStr ''Hi'') (Some choking_callback) idle =
     Some (Inr (Failure ''callback failed''),
       \<lparr>events = [Fetch ''/api/v1/chat/sessions/s1/send_message/'' (sendChatMessage_request (JStr ''Hi'')),
          Read, Callback ''He'', Read, Callback ''y'', ConsoleError (Error ''callback failed'')],
        caller = ''He''\<rparr>)"
proof -
  let ?reader = "script [Chunk [0x48, 0x65], Chunk [0x79], Done]"
  let ?fetch = "Fetch ''/api/v1/chat/sessions/s1/send_message/'' (sendChatMessage_request (JStr ''Hi''))"
  have dec1: "decode latin1 () [0x48, 0x65] = (''He'', ())"
    by (simp add: latin1_def) code_simp
  have dec2: "decode latin1 () [0x79] = (''y'', ())"
    by (simp add: latin1_def) code_simp
  have second: "read_loop latin1 (Some choking_callback) ?reader (Suc 0) () ''He''
      \<lparr>events = [?fetch, Read, Callback ''He''], caller = ''He''\<rparr> =
    Some (Inl (Error ''callback failed''),
      \<lparr>events = [?fetch, Read, Callback ''He'', Read, Callback ''y''], caller = ''He''\<rparr>)"
    by (subst read_loop.simps) (simp add: script_def dec2 call_onChunk_def choking_callback_def)
  have first: "read_loop latin1 (Some choking_callback) ?reader 0 () []
      \<lparr>events = [?fetch], caller = []\<rparr> =
    Some (Inl (Error ''callback failed''),
      \<lparr>events = [?fetch, Read, Callback ''He'', Read, Callback ''y''], caller = ''He''\<rparr>)"
    by (subst read_loop.simps) (simp add: script_def dec1 call_onChunk_def choking_callback_def second)
  have run: "sendChatMessage latin1 sample (JStr ''s1'') (JStr ''Hi'') (Some choking_callback) idle =
     Some (Inr (Failure ''callback failed''),
       \<lparr>events = [?fetch, Read, Callback ''He'', Read, Callback ''y'', ConsoleError (Error ''callback failed'')],
        caller = ''He''\<rparr>)"
    using first
    by (simp add: sendChatMessage_def sendChatMessage_try_def fetch_def server_sample sample_chat_url
        sample_server_def stream_response_def idle_def latin1_def action_defs)
  have rest: "server sample [] ''/api/v1/chat/sessions/s1/send_message/'' (sendChatMessage_request (JStr ''Hi'')) =
     Inr (stream_response True [Chunk [0x48, 0x65], Chunk [0x79], Done]) \<and>
   resp_ok (stream_response True [Chunk [0x48, 0x65], Chunk [0x79], Done]) \<and>
   resp_body (stream_response True [Chunk [0x48, 0x65], Chunk [0x79], Done]) = Some ?reader \<and>
   stream_is ?reader 0 [[0x48, 0x65], [0x79]] Done"
    by (simp add: sample_def sample_server_def stream_response_def script_def)
  from rest decoded_Hey run show ?thesis by simp
qed

text \<open>
  C2. For every run of the streaming reader: if the response status is not successful it
  returns a failure result without reading the stream, and if \<open>fetch\<close> or a read throws it
  returns the failure result that carries the message of the exception, and no part of the
  text accumulated so far. (The last part of the statement says it of whatever the read
  loop throws.)
\<close>

theorem sendChatMessage_failures:
  "(\<forall>response. server pf (events w) (chat_sendMessage pf sessionId) (sendChatMessage_request msg) = Inr response \<and>
      \<not> resp_ok response \<longrightarrow>
      sendChatMessage td pf sessionId msg onChunk w =
        Some (Inr (Failure ''API request failed''),
          w\<lparr>events := events w @
            [Fetch (chat_sendMessage pf sessionId) (sendChatMessage_request msg),
             ConsoleError (Error ''API request failed'')]\<rparr>)) \<and>
   (\<forall>e. server pf (events w) (chat_sendMessage pf sessionId) (sendChatMessage_request msg) = Inl e \<longrightarrow>
      sendChatMessage td pf sessionId msg onChunk w =
        Some (Inr (Failure (message e)),
          w\<lparr>events := events w @
            [Fetch (chat_sendMessage pf sessionId) (sendChatMessage_request msg), ConsoleError e]\<rparr>)) \<and>
   (\<forall>response reader vs e c'.
      server pf (events w) (chat_sendMessage pf sessionId) (sendChatMessage_request msg) = Inr response \<and>
      resp_ok response \<and> resp_body response = Some reader \<and> stream_is reader 0 vs (ReadError e) \<and>
      run_callbacks onChunk (decoded td (new_TextDecoder td) vs) (caller w) = (Inr (), c') \<longrightarrow>
      sendChatMessage td pf sessionId msg onChunk w =
        Some (Inr (Failure (message e)),
          w\<lparr>events := events w @
              Fetch (chat_sendMessage pf sessionId) (sendChatMessage_request msg) #
              chunk_events onChunk (decoded td (new_TextDecoder td) vs) @ [Read, ConsoleError e],
            caller := c'\<rparr>)) \<and>
   (\<forall>response reader e w'.
      server pf (events w) (chat_sendMessage pf sessionId) (sendChatMessage_request msg) = Inr response \<and>
      resp_ok response \<and> resp_body response = Some reader \<and>
      read_loop td onChunk reader 0 (new_TextDecoder td) []
        (w\<lparr>events := events w @
           [Fetch (chat_sendMessage pf sessionId) (sendChatMessage_request msg)]\<rparr>) = Some (Inl e, w') \<longrightarrow>
      sendChatMessage td pf sessionId msg onChunk w =
        Some (Inr (Failure (message e)), w'\<lparr>events := events w' @ [ConsoleError e]\<rparr>))"
proof -
  let ?url = "chat_sendMessage pf sessionId"
  let ?req = "sendChatMessage_request msg"
  let ?w1 = "w\<lparr>events := events w @ [Fetch ?url ?req]\<rparr>"
  have status: "sendChatMessage td pf sessionId msg onChunk w =
      Some (Inr (Failure ''API request failed''),
        w\<lparr>events := events w @ [Fetch ?url ?req, ConsoleError (Error ''API request failed'')]\<rparr>)"
    if "server pf (events w) ?url ?req = Inr response" "\<not> resp_ok response" for response
    using that by (simp add: sendChatMessage_def sendChatMessage_try_def fetch_def action_defs)
  have network: "sendChatMessage td pf sessionId msg onChunk w =
      Some (Inr (Failure (message e)), w\<lparr>events := events w @ [Fetch ?url ?req, ConsoleError e]\<rparr>)"
    if "server pf (events w) ?url ?req = Inl e" for e
    using that by (simp add: sendChatMessage_def sendChatMessage_try_def fetch_def action_defs)
  have reading: "sendChatMessage td pf sessionId msg onChunk w =
      Some (Inr (Failure (message e)),
        w\<lparr>events := events w @ Fetch ?url ?req #
            chunk_events onChunk (decoded td (new_TextDecoder td) vs) @ [Read, ConsoleError e],
          caller := c'\<rparr>)"
    if "server pf (events w) ?url ?req = Inr response" "resp_ok response" "resp_body response = Some reader"
      "stream_is reader 0 vs (ReadError e)"
      "run_callbacks onChunk (decoded td (new_TextDecoder td) vs) (caller w) = (Inr (), c')"
    for response reader vs e c'
  proof -
    have "read_loop td onChunk reader 0 (new_TextDecoder td) [] ?w1 =
        Some (Inl e,
          ?w1\<lparr>events := events ?w1 @ chunk_events onChunk (decoded td (new_TextDecoder td) vs) @ [Read],
            caller := c'\<rparr>)"
      using read_loop_stream [OF that(4), of e onChunk td "new_TextDecoder td" ?w1 c' "[]"] that(5)
      by simp
    then show ?thesis
      using that(1-3)
      by (simp add: sendChatMessage_def sendChatMessage_try_def fetch_def action_defs)
  qed
  have thrown: "sendChatMessage td pf sessionId msg onChunk w =
      Some (Inr (Failure (message e)), w'\<lparr>events := events w' @ [ConsoleError e]\<rparr>)"
    if "server pf (events w) ?url ?req = Inr response" "resp_ok response" "resp_body response = Some reader"
      "read_loop td onChunk reader 0 (new_TextDecoder td) [] ?w1 = Some (Inl e, w')"
    for response reader e w'
    using that by (simp add: sendChatMessage_def sendChatMessage_try_def fetch_def action_defs)
  from status network reading thrown show ?thesis by blast
qed

theorem sendChatMessage_failures_witness:
  "sendChatMessage latin1 sample (JStr ''s2'') (JStr ''Hi'') (Some append_chunk) idle =
     Some (Inr (Failure ''API request failed''),
       \<lparr>events = [Fetch ''/api/v1/chat/sessions/s2/send_message/'' (sendChatMessage_request (JStr ''Hi'')),
          ConsoleError (Error ''API request failed'')],
        caller = []\<rparr>) \<and>
   sendChatMessage latin1 sample (JStr ''s9'') (JStr ''Hi'') (Some append_chunk) idle =
     Some (Inr (Failure ''Failed to fetch''),
       \<lparr>events = [Fetch ''/api/v1/chat/sessions/s9/send_message/'' (sendChatMessage_request (JStr ''Hi'')),
          ConsoleError (Error ''Failed to fetch'')],
        caller = []\<rparr>) \<and>
   sendChatMessage latin1 sample (JStr ''s3'') (JStr ''Hi'') (Some append_chunk) idle =
     Some (Inr (Failure ''network error''),
       \<lparr>events = [Fetch ''/api/v1/chat/sessions/s3/send_message/'' (sendChatMessage_request (JStr ''Hi'')),
          Read, Callback ''He'', Read, ConsoleError (Error ''network error'')],
        caller = ''He''\<rparr>)"
proof -
  have s2: "server sample (events idle) (chat_sendMessage sample (JStr ''s2''))
      (sendChatMessage_request (JStr ''Hi'')) = Inr (stream_response False [Chunk [0x48], Done])"
    by (simp add: server_sample sample_chat_url sample_server_def)
  have s2_status: "\<not> resp_ok (stream_response False [Chunk [0x48], Done])"
    by (simp add: stream_response_def)
  have s9: "server sample (events idle) (chat_sendMessage sample (JStr ''s9''))
      (sendChatMessage_request (JStr ''Hi'')) = Inl (Error ''Failed to fetch'')"
    by (simp add: server_sample sample_chat_url sample_server_def)
  have s3: "server sample (events idle) (chat_sendMessage sample (JStr ''s3''))
      (sendChatMessage_request (JStr ''Hi'')) =
    Inr (stream_response True [Chunk [0x48, 0x65], ReadError (Error ''network error'')])"
    by (simp add: server_sample sample_chat_url sample_server_def)
  have s3_body: "resp_ok (stream_response True [Chunk [0x48, 0x65], ReadError (Error ''network error'')]) \<and>
      resp_body (stream_response True [Chunk [0x48, 0x65], ReadError (Error ''network error'')]) =
        Some (script [Chunk [0x48, 0x65], ReadError (Error ''network error'')])"
    by (simp add: stream_response_def)
  have str: "stream_is (script [Chunk [0x48, 0x65], ReadError (Error ''network error'')]) 0 [[0x48, 0x65]]
      (ReadError (Error ''network error''))"
    by (simp add: script_def)
  have cbs: "run_callbacks (Some append_chunk) (decoded latin1 (new_TextDecoder latin1) [[0x48, 0x65]])
      (caller idle) = (Inr (), ''He'')"
    using decoded_He by (simp add: latin1_def idle_def append_chunk_def)
  have a: "sendChatMessage latin1 sample (JStr ''s2'') (JStr ''Hi'') (Some append_chunk) idle =
     Some (Inr (Failure ''API request failed''),
       \<lparr>events = [Fetch ''/api/v1/chat/sessions/s2/send_message/'' (sendChatMessage_request (JStr ''Hi'')),
          ConsoleError (Error ''API request failed'')],
        caller = []\<rparr>)"
    using sendChatMessage_failures [of sample idle "JStr ''s2''" "JStr ''Hi''" latin1 "Some append_chunk"]
      s2 s2_status
    by (simp add: idle_def sample_chat_url)
  have b: "sendChatMessage latin1 sample (JStr ''s9'') (JStr ''Hi'') (Some append_chunk) idle =
     Some (Inr (Failure ''Failed to fetch''),
       \<lparr>events = [Fetch ''/api/v1/chat/sessions/s9/send_message/'' (sendChatMessage_request (JStr ''Hi'')),
          ConsoleError (Error ''Failed to fetch'')],
        caller = []\<rparr>)"
    using sendChatMessage_failures [of sample idle "JStr ''s9''" "JStr ''Hi''" latin1 "Some append_chunk"] s9
    by (simp add: idle_def sample_chat_url)
  have c: "sendChatMessage latin1 sample (JStr ''s3'') (JStr ''Hi'') (Some append_chunk) idle =
     Some (Inr (Failure ''network error''),
       \<lparr>events = [Fetch ''/api/v1/chat/sessions/s3/send_message/'' (sendChatMessage_request (JStr ''Hi'')),
          Read, Callback ''He'', Read, ConsoleError (Error ''network error'')],
        caller = ''He''\<rparr>)"
  proof -
    from sendChatMessage_failures [of sample idle "JStr ''s3''" "JStr ''Hi''" latin1 "Some append_chunk"]
    have "sendChatMessage latin1 sample (JStr ''s3'') (JStr ''Hi'') (Some append_chunk) idle =
        Some (Inr (Failure (message (Error ''network error''))),
          idle\<lparr>events := events idle @
              Fetch (chat_sendMessage sample (JStr ''s3'')) (sendChatMessage_request (JStr ''Hi'')) #
              chunk_events (Some append_chunk) (decoded latin1 (new_TextDecoder latin1) [[0x48, 0x65]]) @
              [Read, ConsoleError (Error ''network error'')],
            caller := ''He''\<rparr>)"
      using s3 s3_body str cbs by blast
    then show ?thesis
      using decoded_He
      by (simp add: latin1_def idle_def sample_chat_url)
  qed
  from a b c show ?thesis by simp
qed

subsection \<open>The request wrapper\<close>

text \<open>
  C3, as amended. For every call of \<open>apiRequest\<close> that receives a response with a status
  that is not successful and a body that parses as JSON: when the body has a \<open>message\<close>
  field that is a string and not empty, the error text of the failure result is that
  message (and the string conversion of the field when it is another truthy value); when
  the field is falsy (the empty string, \<open>null\<close>, \<open>false\<close>, zero), or when the body is not
  \<open>null\<close> and has no \<open>message\<close> field, the error text is \<open>API request failed\<close>.
\<close>

theorem apiRequest_error_text:
  assumes "server pf (events w) url (finalOptions options) = Inr response"
    and "\<not> resp_ok response"
    and "resp_json response = Inr body"
  shows "(\<forall>m. field_of body ''message'' = Some (JStr m) \<and> m \<noteq> [] \<longrightarrow>
            fst (apiRequest pf url (Options options) w) = Inr (Failure m)) \<and>
         (\<forall>v. field_of body ''message'' = Some v \<and> truthy v \<longrightarrow>
            fst (apiRequest pf url (Options options) w) = Inr (Failure (ToString pf v))) \<and>
         (\<forall>v. field_of body ''message'' = Some v \<and> \<not> truthy v \<longrightarrow>
            fst (apiRequest pf url (Options options) w) = Inr (Failure ''API request failed'')) \<and>
         (field_of body ''message'' = None \<and> body \<noteq> JNull \<and> body \<noteq> JUndefined \<longrightarrow>
            fst (apiRequest pf url (Options options) w) = Inr (Failure ''API request failed''))"
proof -
  have present: "get_prop pf body ''message'' = Inr v" if "field_of body ''message'' = Some v" for v
    using that by (cases body) (auto simp: field_of_def)
  have absent: "get_prop pf body ''message'' = Inr JUndefined"
    if "field_of body ''message'' = None" "body \<noteq> JNull" "body \<noteq> JUndefined"
    using that by (cases body) (auto simp: field_of_def)
  have run: "fst (apiRequest pf url (Options options) w) =
      Inr (Failure (ToString pf (js_or v (JStr ''API request failed''))))"
    if "get_prop pf body ''message'' = Inr v" for v
    using assms that by (simp add: apiRequest_def finalOptions_of_def action_defs fetch_def new_Error_def)
  show ?thesis
    using run [OF present] run [OF absent]
    by (auto simp: js_or_def ToString_def)
qed

theorem apiRequest_error_text_witness:
  "fst (apiRequest sample ''/api/v1/complaints/7/'' (Options no_options) fresh) = Inr (Failure ''Not found.'') \<and>
   fst (apiRequest sample ''/api/v1/complaints/8/'' (Options no_options) fresh) = Inr (Failure ''API request failed'') \<and>
   fst (apiRequest sample ''/api/v1/complaints/9/'' (Options no_options) fresh) = Inr (Failure ''API request failed'')"
proof -
  have 7: "server sample (events fresh) ''/api/v1/complaints/7/'' (finalOptions no_options) =
      Inr (json_response False (JObj [(''message'', JStr ''Not found.'')]))"
    by (simp add: sample_def sample_server_def)
  have 8: "server sample (events fresh) ''/api/v1/complaints/8/'' (finalOptions no_options) =
      Inr (json_response False (JObj [(''detail'', JStr ''Not found.'')]))"
    by (simp add: sample_def sample_server_def)
  have 9: "server sample (events fresh) ''/api/v1/complaints/9/'' (finalOptions no_options) =
      Inr (json_response False (JObj [(''message'', JStr [])]))"
    by (simp add: sample_def sample_server_def)
  from apiRequest_error_text [OF 7, of "JObj [(''message'', JStr ''Not found.'')]"]
  have a: "fst (apiRequest sample ''/api/v1/complaints/7/'' (Options no_options) fresh) = Inr (Failure ''Not found.'')"
    by (simp add: json_response_def field_of_def)
  from apiRequest_error_text [OF 8, of "JObj [(''detail'', JStr ''Not found.'')]"]
  have b: "fst (apiRequest sample ''/api/v1/complaints/8/'' (Options no_options) fresh) =
      Inr (Failure ''API request failed'')"
    by (simp add: json_response_def field_of_def)
  from apiRequest_error_text [OF 9, of "JObj [(''message'', JStr [])]"]
  have c: "fst (apiRequest sample ''/api/v1/complaints/9/'' (Options no_options) fresh) =
      Inr (Failure ''API request failed'')"
    by (simp add: json_response_def field_of_def)
  from a b c show ?thesis by simp
qed

text \<open>
  The response has a status that is not successful and the body \<^verbatim>\<open>{"message": ""}\<close>: the
  body has a \<open>message\<close> field, and the error text is not that message.
\<close>

theorem apiRequest_empty_message_counterexample:
  "server sample (events fresh) ''/api/v1/complaints/9/'' (finalOptions no_options) =
     Inr (json_response False (JObj [(''message'', JStr [])])) \<and>
   \<not> resp_ok (json_response False (JObj [(''message'', JStr [])])) \<and>
   resp_json (json_response False (JObj [(''message'', JStr [])])) = Inr (JObj [(''message'', JStr [])]) \<and>
   field_of (JObj [(''message'', JStr [])]) ''message'' = Some (JStr []) \<and>
   fst (apiRequest sample ''/api/v1/complaints/9/'' (Options no_options) fresh) =
     Inr (Failure ''API request failed'') \<and>
   ''API request failed'' \<noteq> []"
  by (simp add: sample_def sample_server_def json_response_def field_of_def apiRequest_def
      finalOptions_of_def action_defs fetch_def new_Error_def ToString_def js_or_def)

text \<open>
  C4, as amended. For every url, every options argument that is an object or absent, and
  every outcome of \<open>fetch\<close> and of the parse of the body (success, a status that is not
  successful, a network failure, a parse failure), \<open>apiRequest\<close> returns a result object,
  \<open>Success\<close> with the data or \<open>Failure\<close> with an error text, and never throws to its
  caller; on every exception the failure result carries the message of the exception.
\<close>

theorem apiRequest_normalizes:
  "\<exists>r w'. apiRequest pf url (Options options) w = (Inr r, w') \<and>
     (\<forall>e. server pf (events w) url (finalOptions options) = Inl e \<longrightarrow> r = Failure (message e)) \<and>
     (\<forall>response e. server pf (events w) url (finalOptions options) = Inr response \<and>
        resp_json response = Inl e \<longrightarrow> r = Failure (message e)) \<and>
     (\<forall>response d. server pf (events w) url (finalOptions options) = Inr response \<and>
        resp_json response = Inr d \<and> resp_ok response \<longrightarrow> r = Success d) \<and>
     (\<forall>response d e. server pf (events w) url (finalOptions options) = Inr response \<and>
        resp_json response = Inr d \<and> \<not> resp_ok response \<and> get_prop pf d ''message'' = Inl e \<longrightarrow>
        r = Failure (message e)) \<and>
     (\<forall>response d m. server pf (events w) url (finalOptions options) = Inr response \<and>
        resp_json response = Inr d \<and> \<not> resp_ok response \<and> get_prop pf d ''message'' = Inr m \<longrightarrow>
        r = Failure (message (new_Error pf (js_or m (JStr ''API request failed'')))))"
proof -
  let ?answer = "server pf (events w) url (finalOptions options)"
  from apiRequest_effect [of pf url options w] obtain r w' where run: "apiRequest pf url (Options options) w = (Inr r, w')"
    by blast
  have network: "r = Failure (message e)" if "?answer = Inl e" for e
    using run that by (simp add: apiRequest_def finalOptions_of_def action_defs fetch_def)
  have parse: "r = Failure (message e)" if "?answer = Inr response" "resp_json response = Inl e"
    for response e
    using run that by (simp add: apiRequest_def finalOptions_of_def action_defs fetch_def)
  have success: "r = Success d" if "?answer = Inr response" "resp_json response = Inr d" "resp_ok response"
    for response d
    using run that by (simp add: apiRequest_def finalOptions_of_def action_defs fetch_def)
  have unreadable: "r = Failure (message e)"
    if "?answer = Inr response" "resp_json response = Inr d" "\<not> resp_ok response"
      "get_prop pf d ''message'' = Inl e"
    for response d e
    using run that by (simp add: apiRequest_def finalOptions_of_def action_defs fetch_def)
  have status: "r = Failure (message (new_Error pf (js_or m (JStr ''API request failed''))))"
    if "?answer = Inr response" "resp_json response = Inr d" "\<not> resp_ok response"
      "get_prop pf d ''message'' = Inr m"
    for response d m
    using run that by (simp add: apiRequest_def finalOptions_of_def action_defs fetch_def)
  from run network parse success unreadable status show ?thesis
    by blast
qed

theorem apiRequest_normalizes_witness:
  "fst (apiRequest sample ''/api/v1/customers/'' (Options no_options) fresh) = Inr (Failure ''Failed to fetch'') \<and>
   fst (apiRequest sample ''/api/v1/cars/'' (Options no_options) fresh) = Inr (Failure ''Unexpected end of JSON input'') \<and>
   fst (apiRequest sample ''/api/v1/complaints/statistics/'' (Options no_options) fresh) =
     Inr (Success (JObj [(''total'', JNum (Num 3))])) \<and>
   fst (apiRequest sample ''/api/v1/complaints/7/'' (Options no_options) fresh) = Inr (Failure ''Not found.'')"
proof -
  have 1: "server sample (events fresh) ''/api/v1/customers/'' (finalOptions no_options) =
      Inl (Error ''Failed to fetch'')"
    by (simp add: sample_def sample_server_def)
  have 2: "server sample (events fresh) ''/api/v1/cars/'' (finalOptions no_options) =
      Inr \<lparr>resp_ok = True, resp_json = Inl (Error ''Unexpected end of JSON input''), resp_body = None\<rparr>"
    by (simp add: sample_def sample_server_def)
  have 3: "server sample (events fresh) ''/api/v1/complaints/statistics/'' (finalOptions no_options) =
      Inr (json_response True (JObj [(''total'', JNum (Num 3))]))"
    by (simp add: sample_def sample_server_def)
  have 4: "server sample (events fresh) ''/api/v1/complaints/7/'' (finalOptions no_options) =
      Inr (json_response False (JObj [(''message'', JStr ''Not found.'')]))"
    by (simp add: sample_def sample_server_def)
  have m: "get_prop sample (JObj [(''message'', JStr ''Not found.'')]) ''message'' = Inr (JStr ''Not found.'')"
    by simp
  from apiRequest_normalizes [of sample "''/api/v1/customers/''" no_options fresh] 1
  have a: "fst (apiRequest sample ''/api/v1/customers/'' (Options no_options) fresh) = Inr (Failure ''Failed to fetch'')"
    by auto
  from apiRequest_normalizes [of sample "''/api/v1/cars/''" no_options fresh] 2
  have b: "fst (apiRequest sample ''/api/v1/cars/'' (Options no_options) fresh) =
      Inr (Failure ''Unexpected end of JSON input'')"
    by auto
  from apiRequest_normalizes [of sample "''/api/v1/complaints/statistics/''" no_options fresh] 3
  have c: "fst (apiRequest sample ''/api/v1/complaints/statistics/'' (Options no_options) fresh) =
      Inr (Success (JObj [(''total'', JNum (Num 3))]))"
    by (auto simp: json_response_def)
  from apiRequest_normalizes [of sample "''/api/v1/complaints/7/''" no_options fresh] 4 m
  have d: "fst (apiRequest sample ''/api/v1/complaints/7/'' (Options no_options) fresh) = Inr (Failure ''Not found.'')"
    by (auto simp: json_response_def new_Error_def ToString_def js_or_def)
  from a b c d show ?thesis by simp
qed

text \<open>
  The options argument is \<^verbatim>\<open>null\<close>: \<^verbatim>\<open>options.headers\<close> throws before the \<^verbatim>\<open>try\<close> is entered,
  so \<open>apiRequest\<close> throws to its caller, returns no result object, issues no request and
  writes nothing to the console.
\<close>

theorem apiRequest_null_options_counterexample:
  "apiRequest sample ''/api/v1/complaints/statistics/'' NullOptions fresh =
     (Inl (Error ''Cannot read properties of null (reading headers)''), fresh) \<and>
   (\<nexists>r w'. apiRequest sample ''/api/v1/complaints/statistics/'' NullOptions fresh = (Inr r, w')) \<and>
   fst (apiRequest sample ''/api/v1/complaints/statistics/'' (Options no_options) fresh) =
     Inr (Success (JObj [(''total'', JNum (Num 3))]))"
  by (simp add: apiRequest_def finalOptions_of_def action_defs fetch_def sample_def sample_server_def
      json_response_def)

subsection \<open>Markdown rendering\<close>

text \<open>
  C5. \<open>renderMarkdown\<close> is a function of its text alone that applies four substitution
  rules in the fixed order bold, \<^verbatim>\<open>### \<close> headings, \<^verbatim>\<open>- \<close> list items, newlines; in particular
  it renders \<^verbatim>\<open>**x**\<close> as \<^verbatim>\<open><strong>x</strong>\<close>, \<^verbatim>\<open>### Title\<close> as \<^verbatim>\<open><h3>Title</h3>\<close>, \<^verbatim>\<open>- item\<close> as
  \<^verbatim>\<open><li>item</li>\<close>, and the two lines \<^verbatim>\<open>a\<close> and \<^verbatim>\<open>b\<close> separated by a newline as \<^verbatim>\<open>a<br>b\<close>.
  (The last line of the statement shows the order at work: two list items, the second
  with bold text, on lines that the newline rule has not yet joined.)
\<close>

theorem renderMarkdown_rules:
  "renderMarkdown text = newlines (list_items (headers (bold text))) \<and>
   renderMarkdown ''**x**'' = ''<strong>x</strong>'' \<and>
   renderMarkdown ''### Title'' = ''<h3>Title</h3>'' \<and>
   renderMarkdown ''- item'' = ''<li>item</li>'' \<and>
   renderMarkdown (''a'' @ [LF] @ ''b'') = ''a<br>b'' \<and>
   renderMarkdown (''- a'' @ [LF] @ ''- **b**'') = ''<li>a</li><br><li><strong>b</strong></li>''"
proof -
  have bold: "renderMarkdown ''**x**'' = ''<strong>x</strong>''"
    by (simp add: renderMarkdown_def bold_def headers_def list_items_def newlines_def
        LF_def CR_def line_terminator_def)
  have heading: "renderMarkdown ''### Title'' = ''<h3>Title</h3>''"
    by (simp add: renderMarkdown_def bold_def headers_def list_items_def newlines_def
        LF_def CR_def line_terminator_def)
  have item: "renderMarkdown ''- item'' = ''<li>item</li>''"
    by (simp add: renderMarkdown_def bold_def headers_def list_items_def newlines_def
        LF_def CR_def line_terminator_def)
  have newline: "renderMarkdown (''a'' @ [LF] @ ''b'') = ''a<br>b''"
    by (simp add: renderMarkdown_def bold_def headers_def list_items_def newlines_def
        LF_def CR_def line_terminator_def)
  have combined: "renderMarkdown (''- a'' @ [LF] @ ''- **b**'') = ''<li>a</li><br><li><strong>b</strong></li>''"
    by (simp add: renderMarkdown_def bold_def headers_def list_items_def newlines_def
        LF_def CR_def line_terminator_def)
  from bold heading item newline combined show ?thesis
    by (simp add: renderMarkdown_def)
qed

subsection \<open>Closing the chat\<close>

text \<open>
  C6. For every run of \<open>closeChat\<close> in which a chat session is stored and the user
  confirms, the stored session is cleared to \<open>null\<close> and the chat panel is hidden, whatever
  the network answers to the close request.
\<close>

theorem closeChat_resets:
  assumes session: "truthy (currentChatSession b)"
    and confirmed: "user_confirms pf (events b) ''Are you sure you want to close this chat session?''"
  shows "\<exists>b'. closeChat pf b = (Inr (), b') \<and> currentChatSession b' = JNull \<and>
    chat_display (document b') = ''none''"
proof -
  from get_prop_truthy [OF session] obtain ident
    where ident: "get_prop pf (currentChatSession b) ''id'' = Inr ident" by blast
  let ?b1 = "b\<lparr>events := events b @ [Confirm ''Are you sure you want to close this chat session?''],
    document := (document b)\<lparr>loadingSpinner_display := ''flex''\<rparr>\<rparr>"
  let ?options = "\<lparr>req_method = Some ''POST'', req_headers = Map.empty, req_body = None\<rparr>"
  from apiRequest_effect [of pf "chat_closeSession pf ident" ?options ?b1]
  obtain r evs where api:
    "apiRequest pf (chat_closeSession pf ident) (Options ?options) ?b1 =
     (Inr r, ?b1\<lparr>events := events ?b1 @ Fetch (chat_closeSession pf ident) (finalOptions ?options) # evs\<rparr>)"
    by blast
  show ?thesis
    using session confirmed ident api
    by (simp add: closeChat_def action_defs confirm_def showLoading_def alert_def closeChatSession_def)
qed

theorem closeChat_resets_witness:
  "truthy (JObj [(''id'', JStr ''s1'')]) \<and>
   fst (closeChatSession sample (JStr ''s1'') (start\<lparr>currentChatSession := JObj [(''id'', JStr ''s1'')]\<rparr>)) =
     Inr (Failure ''Failed to fetch'') \<and>
   fst (closeChat sample (start\<lparr>currentChatSession := JObj [(''id'', JStr ''s1'')],
      document := blank_page\<lparr>chat_display := ''block''\<rparr>\<rparr>)) = Inr () \<and>
   currentChatSession (snd (closeChat sample (start\<lparr>currentChatSession := JObj [(''id'', JStr ''s1'')],
      document := blank_page\<lparr>chat_display := ''block''\<rparr>\<rparr>))) = JNull \<and>
   chat_display (document (snd (closeChat sample (start\<lparr>currentChatSession := JObj [(''id'', JStr ''s1'')],
      document := blank_page\<lparr>chat_display := ''block''\<rparr>\<rparr>)))) = ''none''"
proof -
  let ?b = "start\<lparr>currentChatSession := JObj [(''id'', JStr ''s1'')],
      document := blank_page\<lparr>chat_display := ''block''\<rparr>\<rparr>"
  have t: "truthy (currentChatSession ?b)" by simp
  have c: "user_confirms sample (events ?b) ''Are you sure you want to close this chat session?''"
    by (simp add: sample_def)
  have f: "fst (closeChatSession sample (JStr ''s1'') (start\<lparr>currentChatSession := JObj [(''id'', JStr ''s1'')]\<rparr>)) =
     Inr (Failure ''Failed to fetch'')"
    by (simp add: closeChatSession_def apiRequest_def finalOptions_of_def action_defs fetch_def sample_def sample_server_def
        chat_closeSession_def ToString_def API_BASE_URL_def)
  from closeChat_resets [OF t c] f show ?thesis by auto
qed

subsection \<open>Confidence colouring\<close>

text \<open>
  C7. For every confidence value \<open>c\<close>, \<open>getConfidenceColor\<close> returns the green tier when
  \<open>c >= 0.8\<close>, the amber tier when \<open>0.6 <= c < 0.8\<close> and the red tier when \<open>c < 0.6\<close>; the
  thresholds themselves belong to the higher tier: \<open>0.8\<close> is green and \<open>0.6\<close> is amber.
\<close>

theorem getConfidenceColor_tiers:
  "(js_ge c literal_0_8 \<longrightarrow> getConfidenceColor c = green_tier) \<and>
   (js_ge c literal_0_6 \<and> js_lt c literal_0_8 \<longrightarrow> getConfidenceColor c = amber_tier) \<and>
   (js_lt c literal_0_6 \<longrightarrow> getConfidenceColor c = red_tier) \<and>
   getConfidenceColor literal_0_8 = green_tier \<and>
   getConfidenceColor literal_0_6 = amber_tier"
proof -
  have green: "js_ge c literal_0_8 \<longrightarrow> getConfidenceColor c = green_tier"
    by (simp add: getConfidenceColor_def green_tier_def)
  have amber: "js_ge c literal_0_6 \<and> js_lt c literal_0_8 \<longrightarrow> getConfidenceColor c = amber_tier"
    using js_lt_not_ge [of c literal_0_8]
    by (auto simp: getConfidenceColor_def amber_tier_def)
  have red: "js_lt c literal_0_6 \<longrightarrow> getConfidenceColor c = red_tier"
    using js_lt_not_ge [of c literal_0_6] js_lt_not_ge [of c literal_0_8] js_lt_below [of c]
    by (auto simp: getConfidenceColor_def red_tier_def)
  have at_0_8: "getConfidenceColor literal_0_8 = green_tier"
    by (simp add: getConfidenceColor_def green_tier_def literal_0_8_def)
  have at_0_6: "getConfidenceColor literal_0_6 = amber_tier"
    by (simp add: getConfidenceColor_def amber_tier_def literal_0_8_def literal_0_6_def)
  from green amber red at_0_8 at_0_6 show ?thesis by blast
qed

theorem getConfidenceColor_tiers_witness:
  "js_ge (Num (7 / 8)) literal_0_8 \<and> getConfidenceColor (Num (7 / 8)) = green_tier \<and>
   js_ge (Num (5 / 8)) literal_0_6 \<and> js_lt (Num (5 / 8)) literal_0_8 \<and>
   getConfidenceColor (Num (5 / 8)) = amber_tier \<and>
   js_lt (Num (3 / 8)) literal_0_6 \<and> getConfidenceColor (Num (3 / 8)) = red_tier"
proof -
  have g: "js_ge (Num (7 / 8)) literal_0_8" by (simp add: literal_0_8_def)
  have a: "js_ge (Num (5 / 8)) literal_0_6 \<and> js_lt (Num (5 / 8)) literal_0_8"
    by (simp add: literal_0_6_def literal_0_8_def)
  have r: "js_lt (Num (3 / 8)) literal_0_6" by (simp add: literal_0_6_def)
  from g a r getConfidenceColor_tiers [of "Num (7 / 8)"] getConfidenceColor_tiers [of "Num (5 / 8)"]
    getConfidenceColor_tiers [of "Num (3 / 8)"]
  show ?thesis by blast
qed

subsection \<open>Submitting a complaint\<close>

lemma handleComplaintSubmit_rejected:
  assumes "customerEmail (document b) = []" and "customerPhone (document b) = []"
  shows "handleComplaintSubmit pf display b =
    (Inr (), b\<lparr>events := events b @
       [PreventDefault, Alert ''Please provide at least an email or phone number.'']\<rparr>)"
  using assms by (simp add: handleComplaintSubmit_def action_defs alert_def)

lemma handleComplaintSubmit_fetches:
  assumes "customerEmail (document b) \<noteq> [] \<or> customerPhone (document b) \<noteq> []"
  shows "fetches (events (snd (handleComplaintSubmit pf display b))) =
    fetches (events b) @
      [(complaints_quickSubmit,
        finalOptions \<lparr>req_method = Some ''POST'', req_headers = Map.empty,
          req_body = Some (JSON_stringify (formData_of (document b)))\<rparr>)]"
proof -
  let ?b1 = "b\<lparr>events := events b @ [PreventDefault],
    document := (document b)\<lparr>loadingSpinner_display := ''flex''\<rparr>\<rparr>"
  let ?req = "\<lparr>req_method = Some ''POST'', req_headers = Map.empty,
          req_body = Some (JSON_stringify (formData_of (document b)))\<rparr>"
  from apiRequest_effect [of pf complaints_quickSubmit ?req ?b1]
  obtain r evs where api: "apiRequest pf complaints_quickSubmit (Options ?req) ?b1 =
      (Inr r, ?b1\<lparr>events := events ?b1 @ Fetch complaints_quickSubmit (finalOptions ?req) # evs\<rparr>)"
    and evs: "fetches evs = []"
    by blast
  show ?thesis
    using assms api evs
    by (cases r)
      (auto simp: handleComplaintSubmit_def action_defs alert_def showLoading_def
        submitComplaint_def render_def fetches_append Let_def
        split: sum.splits prod.splits)
qed

text \<open>
  C8. For every run of \<open>handleComplaintSubmit\<close> in which the email field and the phone
  field are both empty, no request is issued and the validation message is shown; the
  submission goes to the network only when one of them is not empty, and then it does.
\<close>

theorem handleComplaintSubmit_validation:
  "(customerEmail (document b) = [] \<and> customerPhone (document b) = [] \<longrightarrow>
      handleComplaintSubmit pf display b =
        (Inr (), b\<lparr>events := events b @
           [PreventDefault, Alert ''Please provide at least an email or phone number.'']\<rparr>) \<and>
      fetches (events (snd (handleComplaintSubmit pf display b))) = fetches (events b)) \<and>
   (customerEmail (document b) \<noteq> [] \<or> customerPhone (document b) \<noteq> [] \<longrightarrow>
      fetches (events (snd (handleComplaintSubmit pf display b))) =
        fetches (events b) @
          [(complaints_quickSubmit,
            finalOptions \<lparr>req_method = Some ''POST'', req_headers = Map.empty,
              req_body = Some (JSON_stringify (formData_of (document b)))\<rparr>)])"
  using handleComplaintSubmit_rejected [of b pf display] handleComplaintSubmit_fetches [of b pf display]
  by (auto simp: fetches_append)

theorem handleComplaintSubmit_validation_witness:
  "handleComplaintSubmit sample no_rendering start =
     (Inr (), start\<lparr>events := [PreventDefault, Alert ''Please provide at least an email or phone number.'']\<rparr>) \<and>
   fetches (events (snd (handleComplaintSubmit sample no_rendering start))) = [] \<and>
   fetches (events (snd (handleComplaintSubmit sample no_rendering
      (start\<lparr>document := blank_page\<lparr>customerPhone := ''555-0100''\<rparr>\<rparr>)))) =
     [(''/api/v1/complaints/quick-submit/'',
       finalOptions \<lparr>req_method = Some ''POST'', req_headers = Map.empty,
         req_body = Some (JSON_stringify (formData_of (blank_page\<lparr>customerPhone := ''555-0100''\<rparr>)))\<rparr>)]"
proof -
  have a: "customerEmail (document start) = [] \<and> customerPhone (document start) = []"
    by (simp add: start_def blank_page_def)
  have b: "customerPhone (document (start\<lparr>document := blank_page\<lparr>customerPhone := ''555-0100''\<rparr>\<rparr>)) \<noteq> []"
    by simp
  from a handleComplaintSubmit_validation [of start sample no_rendering]
  have 1: "handleComplaintSubmit sample no_rendering start =
     (Inr (), start\<lparr>events := [PreventDefault, Alert ''Please provide at least an email or phone number.'']\<rparr>) \<and>
   fetches (events (snd (handleComplaintSubmit sample no_rendering start))) = []"
    by (simp add: start_def)
  from b handleComplaintSubmit_validation
    [of "start\<lparr>document := blank_page\<lparr>customerPhone := ''555-0100''\<rparr>\<rparr>" sample no_rendering]
  have 2: "fetches (events (snd (handleComplaintSubmit sample no_rendering
      (start\<lparr>document := blank_page\<lparr>customerPhone := ''555-0100''\<rparr>\<rparr>)))) =
     [(''/api/v1/complaints/quick-submit/'',
       finalOptions \<lparr>req_method = Some ''POST'', req_headers = Map.empty,
         req_body = Some (JSON_stringify (formData_of (blank_page\<lparr>customerPhone := ''555-0100''\<rparr>)))\<rparr>)]"
    by (simp add: start_def complaints_quickSubmit_def API_BASE_URL_def)
  from 1 2 show ?thesis by simp
qed

text \<open>
  C9, as amended. In the form data that \<open>handleComplaintSubmit\<close> sends, a year whose
  text fails to parse as an integer, or parses to zero, is sent as unset, and a mileage
  whose text fails to parse is sent as zero; a year that parses to a finite number other
  than zero and a mileage that parses to a finite number are sent with the number that
  \<open>parseInt\<close> returns for the text, a double; a year or a mileage whose run of digits is so
  long that \<open>parseInt\<close> returns \<^verbatim>\<open>Infinity\<close> or \<^verbatim>\<open>-Infinity\<close> is sent as \<open>null\<close>.
\<close>

theorem formData_numeric_fields:
  assumes "customerEmail (document b) \<noteq> [] \<or> customerPhone (document b) \<noteq> []"
  shows "fetches (events (snd (handleComplaintSubmit pf display b))) =
      fetches (events b) @
        [(complaints_quickSubmit,
          finalOptions \<lparr>req_method = Some ''POST'', req_headers = Map.empty,
            req_body = Some (JSON_stringify (formData_of (document b)))\<rparr>)] \<and>
    (parseInt (carYear (document b)) = NaN \<longrightarrow>
       field_of (JSON_stringify (formData_of (document b))) ''car_year'' = None) \<and>
    (parseInt (carYear (document b)) = Num 0 \<longrightarrow>
       field_of (JSON_stringify (formData_of (document b))) ''car_year'' = None) \<and>
    (\<forall>n. parseInt (carYear (document b)) = Num n \<and> n \<noteq> 0 \<longrightarrow>
       field_of (JSON_stringify (formData_of (document b))) ''car_year'' = Some (JNum (Num n))) \<and>
    (parseInt (carMileage (document b)) = NaN \<longrightarrow>
       field_of (JSON_stringify (formData_of (document b))) ''car_mileage'' = Some (JNum (Num 0))) \<and>
    (\<forall>n. parseInt (carMileage (document b)) = Num n \<longrightarrow>
       field_of (JSON_stringify (formData_of (document b))) ''car_mileage'' = Some (JNum (Num n))) \<and>
    (parseInt (carYear (document b)) = PosInfinity \<or> parseInt (carYear (document b)) = NegInfinity \<longrightarrow>
       field_of (JSON_stringify (formData_of (document b))) ''car_year'' = Some JNull) \<and>
    (parseInt (carMileage (document b)) = PosInfinity \<or> parseInt (carMileage (document b)) = NegInfinity \<longrightarrow>
       field_of (JSON_stringify (formData_of (document b))) ''car_mileage'' = Some JNull)"
proof -
  have year: "field_of (JSON_stringify (formData_of p)) ''car_year'' =
      (if truthy (JNum (parseInt (carYear p))) then Some (serialized (JNum (parseInt (carYear p)))) else None)"
    for p
    by (simp add: field_of_def JSON_stringify_def formData_of_def js_or_def)
  have mileage: "field_of (JSON_stringify (formData_of p)) ''car_mileage'' =
      Some (if truthy (JNum (parseInt (carMileage p))) then serialized (JNum (parseInt (carMileage p)))
            else JNum (Num 0))"
    for p
    by (simp add: field_of_def JSON_stringify_def formData_of_def js_or_def)
  show ?thesis
    using handleComplaintSubmit_fetches [OF assms, of pf display]
    by (auto simp: year mileage)
qed

theorem formData_numeric_fields_witness:
  "parseInt ''2019'' = Num 2019 \<and> parseInt ''n/a'' = NaN \<and>
   field_of (JSON_stringify (formData_of
      (blank_page\<lparr>customerEmail := ''a@b.c'', carYear := ''2019'', carMileage := ''n/a''\<rparr>))) ''car_year'' =
     Some (JNum (Num 2019)) \<and>
   field_of (JSON_stringify (formData_of
      (blank_page\<lparr>customerEmail := ''a@b.c'', carYear := ''2019'', carMileage := ''n/a''\<rparr>))) ''car_mileage'' =
     Some (JNum (Num 0)) \<and>
   parseInt ''52000 km'' = Num 52000 \<and>
   field_of (JSON_stringify (formData_of
      (blank_page\<lparr>customerEmail := ''a@b.c'', carYear := ''n/a'', carMileage := ''52000 km''\<rparr>))) ''car_year'' =
     None \<and>
   field_of (JSON_stringify (formData_of
      (blank_page\<lparr>customerEmail := ''a@b.c'', carYear := ''n/a'', carMileage := ''52000 km''\<rparr>))) ''car_mileage'' =
     Some (JNum (Num 52000)) \<and>
   parseInt overlong = PosInfinity \<and> parseInt ''9007199254740993'' = Num 9007199254740992 \<and>
   field_of (JSON_stringify (formData_of
      (blank_page\<lparr>customerEmail := ''a@b.c'', carYear := overlong,
         carMileage := ''9007199254740993''\<rparr>))) ''car_year'' =
     Some JNull \<and>
   field_of (JSON_stringify (formData_of
      (blank_page\<lparr>customerEmail := ''a@b.c'', carYear := overlong,
         carMileage := ''9007199254740993''\<rparr>))) ''car_mileage'' =
     Some (JNum (Num 9007199254740992)) \<and>
   parseInt (CHR ''-'' # overlong) = NegInfinity \<and>
   field_of (JSON_stringify (formData_of
      (blank_page\<lparr>customerEmail := ''a@b.c'', carYear := ''2019'',
         carMileage := CHR ''-'' # overlong\<rparr>))) ''car_mileage'' =
     Some JNull"
proof -
  have y: "parseInt ''2019'' = Num 2019" by (simp add: parseInt_defs)
  have n: "parseInt ''n/a'' = NaN" by (simp add: parseInt_defs)
  have m: "parseInt ''52000 km'' = Num 52000" by (simp add: parseInt_defs)
  note i = parseInt_overlong
  note j = parseInt_overlong_negative
  note k = parseInt_rounds_down
  let ?p = "blank_page\<lparr>customerEmail := ''a@b.c'', carYear := ''2019'', carMileage := ''n/a''\<rparr>"
  let ?q = "blank_page\<lparr>customerEmail := ''a@b.c'', carYear := ''n/a'', carMileage := ''52000 km''\<rparr>"
  let ?r = "blank_page\<lparr>customerEmail := ''a@b.c'', carYear := overlong,
    carMileage := ''9007199254740993''\<rparr>"
  let ?s = "blank_page\<lparr>customerEmail := ''a@b.c'', carYear := ''2019'',
    carMileage := CHR ''-'' # overlong\<rparr>"
  have e: "customerEmail (document (start\<lparr>document := ?p\<rparr>)) \<noteq> [] \<or>
      customerPhone (document (start\<lparr>document := ?p\<rparr>)) \<noteq> []"
    "customerEmail (document (start\<lparr>document := ?q\<rparr>)) \<noteq> [] \<or>
      customerPhone (document (start\<lparr>document := ?q\<rparr>)) \<noteq> []"
    "customerEmail (document (start\<lparr>document := ?r\<rparr>)) \<noteq> [] \<or>
      customerPhone (document (start\<lparr>document := ?r\<rparr>)) \<noteq> []"
    "customerEmail (document (start\<lparr>document := ?s\<rparr>)) \<noteq> [] \<or>
      customerPhone (document (start\<lparr>document := ?s\<rparr>)) \<noteq> []"
    by simp_all
  from formData_numeric_fields [OF e(1), of sample no_rendering] y n
  have 1: "field_of (JSON_stringify (formData_of ?p)) ''car_year'' = Some (JNum (Num 2019)) \<and>
      field_of (JSON_stringify (formData_of ?p)) ''car_mileage'' = Some (JNum (Num 0))"
    by simp
  from formData_numeric_fields [OF e(2), of sample no_rendering] m n
  have 2: "field_of (JSON_stringify (formData_of ?q)) ''car_year'' = None \<and>
      field_of (JSON_stringify (formData_of ?q)) ''car_mileage'' = Some (JNum (Num 52000))"
    by simp
  from formData_numeric_fields [OF e(3), of sample no_rendering] i k
  have 3: "field_of (JSON_stringify (formData_of ?r)) ''car_year'' = Some JNull \<and>
      field_of (JSON_stringify (formData_of ?r)) ''car_mileage'' = Some (JNum (Num 9007199254740992))"
    by simp
  from formData_numeric_fields [OF e(4), of sample no_rendering] y j
  have 4: "field_of (JSON_stringify (formData_of ?s)) ''car_mileage'' = Some JNull"
    by simp
  from y n m i j k 1 2 3 4 show ?thesis by simp
qed

text \<open>
  The year field holds \<^verbatim>\<open>0\<close>: its text parses as the integer zero, and the year is sent as
  unset, not as zero.
\<close>

theorem year_zero_counterexample:
  "parseInt ''0'' = Num 0 \<and>
   field_of (JSON_stringify (formData_of (blank_page\<lparr>customerEmail := ''a@b.c'', carYear := ''0''\<rparr>)))
     ''car_year'' = None \<and>
   fetches (events (snd (handleComplaintSubmit sample no_rendering
      (start\<lparr>document := blank_page\<lparr>customerEmail := ''a@b.c'', carYear := ''0''\<rparr>\<rparr>)))) =
     [(''/api/v1/complaints/quick-submit/'',
       finalOptions \<lparr>req_method = Some ''POST'', req_headers = Map.empty,
         req_body = Some (JSON_stringify (formData_of
           (blank_page\<lparr>customerEmail := ''a@b.c'', carYear := ''0''\<rparr>)))\<rparr>)]"
proof -
  have z: "parseInt ''0'' = Num 0" by (simp add: parseInt_defs)
  have unset: "field_of (JSON_stringify (formData_of (blank_page\<lparr>customerEmail := ''a@b.c'', carYear := ''0''\<rparr>)))
     ''car_year'' = None"
    using z by (simp add: field_of_def JSON_stringify_def formData_of_def js_or_def)
  have sent: "fetches (events (snd (handleComplaintSubmit sample no_rendering
      (start\<lparr>document := blank_page\<lparr>customerEmail := ''a@b.c'', carYear := ''0''\<rparr>\<rparr>)))) =
     [(''/api/v1/complaints/quick-submit/'',
       finalOptions \<lparr>req_method = Some ''POST'', req_headers = Map.empty,
         req_body = Some (JSON_stringify (formData_of
           (blank_page\<lparr>customerEmail := ''a@b.c'', carYear := ''0''\<rparr>)))\<rparr>)]"
    using handleComplaintSubmit_fetches
      [of "start\<lparr>document := blank_page\<lparr>customerEmail := ''a@b.c'', carYear := ''0''\<rparr>\<rparr>" sample no_rendering]
    by (simp add: start_def complaints_quickSubmit_def API_BASE_URL_def)
  from z unset sent show ?thesis by simp
qed

subsection \<open>Searching a vehicle\<close>

text \<open>
  C10. For every run of \<open>searchVehicle\<close> in which the lookup of the license plate
  succeeds and the call for the complaint history that follows returns a failure result,
  no results are rendered and no error is shown to the user: the search results area is
  left as it was, no alert is shown, and the function returns.
\<close>

theorem searchVehicle_history_failure:
  assumes plate: "trim (searchPlate (document b)) \<noteq> []"
    and lookup: "searchCarByPlate pf (trim (searchPlate (document b))) (snd (showLoading True b)) =
      (Inr (Success car), b1)"
    and ident: "get_prop pf car ''id'' = Inr ident"
    and history: "getCarComplaintHistory pf ident (snd (showLoading False b1)) = (Inr (Failure err), b2)"
  shows "searchVehicle pf display b = (Inr (), b2) \<and>
    searchResults_innerHTML (document b2) = searchResults_innerHTML (document b) \<and>
    alerts (events b2) = alerts (events b) \<and>
    document b2 = (document b)\<lparr>loadingSpinner_display := ''none''\<rparr>"
proof -
  let ?plate = "trim (searchPlate (document b))"
  from apiRequest_effect [of pf "cars_byPlate @ ''?plate='' @ encodeURIComponent pf ?plate" no_options
      "snd (showLoading True b)"] lookup
  obtain evs1 where b1: "b1 = (snd (showLoading True b))\<lparr>events := events (snd (showLoading True b)) @
      Fetch (cars_byPlate @ ''?plate='' @ encodeURIComponent pf ?plate) (finalOptions no_options) # evs1\<rparr>"
    and evs1: "alerts evs1 = []"
    by (auto simp: searchCarByPlate_def)
  from apiRequest_effect [of pf "cars_history pf ident" no_options "snd (showLoading False b1)"] history
  obtain evs2 where b2: "b2 = (snd (showLoading False b1))\<lparr>events := events (snd (showLoading False b1)) @
      Fetch (cars_history pf ident) (finalOptions no_options) # evs2\<rparr>"
    and evs2: "alerts evs2 = []"
    by (auto simp: getCarComplaintHistory_def)
  have run: "searchVehicle pf display b = (Inr (), b2)"
    using plate lookup ident history
    by (simp add: searchVehicle_def action_defs showLoading_def)
  show ?thesis
    using run b1 b2 evs1 evs2
    by (simp add: showLoading_def modify_def alerts_append)
qed

theorem searchVehicle_history_failure_witness:
  "trim ('' ABC123 '') = ''ABC123'' \<and>
   searchVehicle sample no_rendering
       (start\<lparr>document := blank_page\<lparr>searchPlate := '' ABC123 '', searchResults_innerHTML := ''<p>old</p>''\<rparr>\<rparr>) =
     (Inr (),
      \<lparr>events =
         [Fetch ''/api/v1/cars/by_license_plate/?plate=ABC123'' (finalOptions no_options),
          Fetch ''/api/v1/cars/c1/complaint_history/'' (finalOptions no_options),
          ConsoleError (Error ''Server error'')],
       currentComplaint = JNull, currentChatSession = JNull, currentCar = JNull,
       document = blank_page\<lparr>searchPlate := '' ABC123 '', searchResults_innerHTML := ''<p>old</p>''\<rparr>\<rparr>)"
proof -
  let ?b = "start\<lparr>document := blank_page\<lparr>searchPlate := '' ABC123 '', searchResults_innerHTML := ''<p>old</p>''\<rparr>\<rparr>"
  let ?b1 = "\<lparr>events = [Fetch ''/api/v1/cars/by_license_plate/?plate=ABC123'' (finalOptions no_options)],
       currentComplaint = JNull, currentChatSession = JNull, currentCar = JNull,
       document = blank_page\<lparr>searchPlate := '' ABC123 '', searchResults_innerHTML := ''<p>old</p>'',
         loadingSpinner_display := ''flex''\<rparr>\<rparr>"
  let ?b2 = "\<lparr>events =
         [Fetch ''/api/v1/cars/by_license_plate/?plate=ABC123'' (finalOptions no_options),
          Fetch ''/api/v1/cars/c1/complaint_history/'' (finalOptions no_options),
          ConsoleError (Error ''Server error'')],
       currentComplaint = JNull, currentChatSession = JNull, currentCar = JNull,
       document = blank_page\<lparr>searchPlate := '' ABC123 '', searchResults_innerHTML := ''<p>old</p>''\<rparr>\<rparr>"
  have tr: "trim ('' ABC123 '') = ''ABC123''" by (simp add: trim_def white_space_def)
  have plate: "trim (searchPlate (document ?b)) \<noteq> []" using tr by simp
  have encode: "encodeURIComponent sample s = s" for s
    by (simp add: sample_def)
  have url2: "cars_history sample (JStr ''c1'') = ''/api/v1/cars/c1/complaint_history/''"
    by (simp add: cars_history_def API_BASE_URL_def ToString_def)
  have srv1: "server sample evs ''/api/v1/cars/by_license_plate/?plate=ABC123'' init =
      Inr (json_response True (JObj [(''id'', JStr ''c1'')]))" for evs init
    by (simp add: server_sample sample_server_def)
  have srv2: "server sample evs ''/api/v1/cars/c1/complaint_history/'' init =
      Inr (json_response False (JObj [(''message'', JStr ''Server error'')]))" for evs init
    by (simp add: server_sample sample_server_def)
  have loading: "snd (showLoading True ?b) =
      \<lparr>events = [], currentComplaint = JNull, currentChatSession = JNull, currentCar = JNull,
       document = blank_page\<lparr>searchPlate := '' ABC123 '', searchResults_innerHTML := ''<p>old</p>'',
         loadingSpinner_display := ''flex''\<rparr>\<rparr>"
    by (simp add: showLoading_def modify_def start_def)
  have loaded: "snd (showLoading False ?b1) =
      \<lparr>events = [Fetch ''/api/v1/cars/by_license_plate/?plate=ABC123'' (finalOptions no_options)],
       currentComplaint = JNull, currentChatSession = JNull, currentCar = JNull,
       document = blank_page\<lparr>searchPlate := '' ABC123 '', searchResults_innerHTML := ''<p>old</p>''\<rparr>\<rparr>"
    by (simp add: showLoading_def modify_def blank_page_def)
  have lookup: "searchCarByPlate sample (trim (searchPlate (document ?b))) (snd (showLoading True ?b)) =
      (Inr (Success (JObj [(''id'', JStr ''c1'')])), ?b1)"
  proof -
    have "apiRequest sample ''/api/v1/cars/by_license_plate/?plate=ABC123'' (Options no_options) (snd (showLoading True ?b)) =
        (Inr (Success (JObj [(''id'', JStr ''c1'')])),
         (snd (showLoading True ?b))\<lparr>events := events (snd (showLoading True ?b)) @
           [Fetch ''/api/v1/cars/by_license_plate/?plate=ABC123'' (finalOptions no_options)]\<rparr>)"
      by (rule apiRequest_success [OF srv1]) (simp, simp)
    then show ?thesis
      by (simp add: searchCarByPlate_def tr loading encode cars_byPlate_def API_BASE_URL_def)
  qed
  have ident: "get_prop sample (JObj [(''id'', JStr ''c1'')]) ''id'' = Inr (JStr ''c1'')" by simp
  have history: "getCarComplaintHistory sample (JStr ''c1'') (snd (showLoading False ?b1)) =
      (Inr (Failure ''Server error''), ?b2)"
  proof -
    have "apiRequest sample ''/api/v1/cars/c1/complaint_history/'' (Options no_options) (snd (showLoading False ?b1)) =
        (Inr (Failure ''Server error''),
         (snd (showLoading False ?b1))\<lparr>events := events (snd (showLoading False ?b1)) @
           [Fetch ''/api/v1/cars/c1/complaint_history/'' (finalOptions no_options),
            ConsoleError (Error ''Server error'')]\<rparr>)"
      by (rule apiRequest_rejected [OF srv2]) (simp, simp, simp, simp)
    then show ?thesis
      by (simp add: getCarComplaintHistory_def url2 loaded)
  qed
  from searchVehicle_history_failure [OF plate lookup ident history, of no_rendering] tr
  show ?thesis by simp
qed

end
